theory Spec2Isabelle
  imports Complex_Main
begin

chapter \<open>MovieApp recommendation backend: catalog ingestion, rating store and query surface\<close>

text \<open>
  A shallow embedding of the Python sources \<^verbatim>\<open>app.py\<close>, \<^verbatim>\<open>db_models.py\<close> and
  \<^verbatim>\<open>ml_recommendation_engine/integrate_movielens.py\<close>.

  Conventions of the embedding.
  \<^item> A pandas data frame is the list of its rows, in index order; a row is a record
    of its columns. A missing cell (NaN) is \<open>None\<close>.
  \<^item> Python \<^verbatim>\<open>float\<close> values are real numbers; rounding is not modelled.
  \<^item> A Python \<^verbatim>\<open>str\<close> is a \<open>string\<close>; a \<open>char\<close> stands for the code point of the
    same number, so the strings of the model are those over the code points below 256.
  \<^item> A module-level global that holds a loaded object or \<^verbatim>\<open>None\<close> is an \<open>option\<close>.
  \<^item> Every \<^verbatim>\<open>try\<close>/\<^verbatim>\<open>except\<close> of the source is a case distinction on a sum:
    \<open>Inl\<close> carries the message of the exception, \<open>Inr\<close> the value.
\<close>

section \<open>Definitions\<close>

subsection \<open>Dynamically typed values and truthiness\<close>

text \<open>
  The scalar values a JSON request body or a helper argument can carry:
  \<^verbatim>\<open>None\<close>, booleans, integers, floats and strings. JSON arrays and objects
  are not part of the model.
\<close>

datatype "value" = VNone | VBool bool | VInt int | VFloat real | VStr string

text \<open>Python's truth value of a scalar, as used by \<^verbatim>\<open>all([...])\<close> and \<^verbatim>\<open>if x:\<close>.\<close>

fun truthy :: "value \<Rightarrow> bool" where
  "truthy VNone = False"
| "truthy (VBool b) = b"
| "truthy (VInt i) = (i \<noteq> 0)"
| "truthy (VFloat r) = (r \<noteq> 0)"
| "truthy (VStr s) = (s \<noteq> [])"

text \<open>
  Python's \<^verbatim>\<open>==\<close> on scalars: booleans, integers and floats compare by numeric
  value (\<^verbatim>\<open>True == 1\<close>, \<^verbatim>\<open>1 == 1.0\<close>), strings by content, and values of
  different kinds are unequal.
\<close>

fun num_of :: "value \<Rightarrow> real option" where
  "num_of (VBool b) = Some (if b then 1 else 0)"
| "num_of (VInt i) = Some (of_int i)"
| "num_of (VFloat r) = Some r"
| "num_of _ = None"

fun py_eq :: "value \<Rightarrow> value \<Rightarrow> bool" where
  "py_eq VNone VNone = True"
| "py_eq (VStr s) (VStr t) = (s = t)"
| "py_eq a b = (case (num_of a, num_of b) of (Some x, Some y) \<Rightarrow> x = y | _ \<Rightarrow> False)"

subsection \<open>\<^verbatim>\<open>clean_text\<close> (app.py)\<close>

text \<open>
  \<^verbatim>\<open>
  def clean_text(text):
      if not isinstance(text, str):
          return ""
      text = re.sub(r'[\n\r\t\\"]', ' ', text)
      text = re.sub(r'\s+', ' ', text)
      return text.strip()
  \<close>
  \<open>is_space\<close> is the whitespace class shared by \<^verbatim>\<open>\s\<close> on \<^verbatim>\<open>str\<close> patterns,
  \<^verbatim>\<open>str.isspace\<close> and \<^verbatim>\<open>str.strip\<close>: below code point 256 these are 9 to 13,
  28 to 32, 133 and 160.
\<close>

definition is_space :: "char \<Rightarrow> bool" where
  "is_space c =
     (let n = (of_char c :: nat)
      in (9 \<le> n \<and> n \<le> 13) \<or> (28 \<le> n \<and> n \<le> 32) \<or> n = 133 \<or> n = 160)"

text \<open>The character class of the first substitution: newline, carriage return, tab,
  backslash and double quote.\<close>

definition escaped :: "char \<Rightarrow> bool" where
  "escaped c = (c = CHR 0x0A \<or> c = CHR 0x0D \<or> c = CHR 0x09 \<or> c = CHR 0x5C \<or> c = CHR 0x22)"

definition sub_escaped :: "string \<Rightarrow> string" where
  "sub_escaped s = map (\<lambda>c. if escaped c then CHR '' '' else c) s"

text \<open>\<^verbatim>\<open>re.sub(r'\s+', ' ', text)\<close>: every maximal run of whitespace becomes one space.\<close>

function sub_spaces :: "string \<Rightarrow> string" where
  "sub_spaces [] = []"
| "sub_spaces (c # cs) =
     (if is_space c then CHR '' '' # sub_spaces (dropWhile is_space cs)
      else c # sub_spaces cs)"
  by pat_completeness auto
termination
  by (relation "measure length") (auto simp: le_imp_less_Suc length_dropWhile_le)

definition strip :: "string \<Rightarrow> string" where
  "strip s = rev (dropWhile is_space (rev (dropWhile is_space s)))"

fun clean_text :: "value \<Rightarrow> string" where
  "clean_text (VStr text) = strip (sub_spaces (sub_escaped text))"
| "clean_text _ = []"

subsection \<open>The rating store and \<^verbatim>\<open>api_add_rating\<close> (app.py)\<close>

text \<open>
  The global \<^verbatim>\<open>ratings_df\<close> is \<^verbatim>\<open>None\<close> or a data frame with the columns
  \<^verbatim>\<open>user_id\<close>, \<^verbatim>\<open>item_id\<close>, \<^verbatim>\<open>rating\<close>, \<^verbatim>\<open>timestamp\<close>. The frame has no
  media-type column: the endpoint does not read one from the request.
\<close>

record rating_row =
  user_id :: "value"
  item_id :: "value"
  rating :: "value"
  timestamp :: "value"

type_synonym ratings_frame = "rating_row list"

text \<open>The bodies the endpoints answer with; the comment gives the text of the source.\<close>

datatype error_body =
    MissingParameters       \<comment> \<open>\<^verbatim>\<open>'Eksik parametreler'\<close>\<close>
  | ModelNotLoaded          \<comment> \<open>\<^verbatim>\<open>'Model yuklenmedi'\<close>\<close>
  | ContentModelNotLoaded   \<comment> \<open>\<^verbatim>\<open>'Icerik tabanli model yuklenmedi'\<close>\<close>
  | Raised string           \<comment> \<open>\<^verbatim>\<open>str(e)\<close> of a caught exception\<close>

datatype 'a response = Ok 'a | Err nat error_body

text \<open>\<^verbatim>\<open>data.get(k)\<close> on the JSON object of the request: an absent key and a
  \<^verbatim>\<open>null\<close> both read as \<^verbatim>\<open>None\<close>.\<close>

definition dict_get :: "(string \<rightharpoonup> value) \<Rightarrow> string \<Rightarrow> value" where
  "dict_get data k = (case data k of None \<Rightarrow> VNone | Some v \<Rightarrow> v)"

text \<open>
  \<^verbatim>\<open>
  mask = (ratings_df['user_id'] == user_id) & (ratings_df['item_id'] == item_id)
  \<close>
\<close>

definition row_mask :: "value \<Rightarrow> value \<Rightarrow> rating_row \<Rightarrow> bool" where
  "row_mask u i row = (py_eq (user_id row) u \<and> py_eq (item_id row) i)"

text \<open>
  \<^verbatim>\<open>
  if mask.any():
      ratings_df.loc[mask, 'rating'] = rating
      ratings_df.loc[mask, 'timestamp'] = pd.Timestamp.now().timestamp()
  else:
      new_rating = pd.DataFrame({'user_id': [user_id], 'item_id': [item_id],
                                 'rating': [rating],
                                 'timestamp': [pd.Timestamp.now().timestamp()]})
      ratings_df = pd.concat([ratings_df, new_rating], ignore_index=True)
  \<close>
  The clock reading \<open>now\<close> is an input.
\<close>

definition upsert :: "value \<Rightarrow> value \<Rightarrow> value \<Rightarrow> real \<Rightarrow> ratings_frame \<Rightarrow> ratings_frame" where
  "upsert u i r now df =
     (if list_ex (row_mask u i) df
      then map (\<lambda>row. if row_mask u i row
                       then row\<lparr>rating := r, timestamp := VFloat now\<rparr> else row) df
      else df @ [\<lparr>user_id = u, item_id = i, rating = r, timestamp = VFloat now\<rparr>])"

text \<open>
  The endpoint. \<open>data\<close> is the JSON object of the request, \<open>now\<close> the clock and
  \<open>write_error\<close> the exception, if any, that writing the CSV file raises; the result
  is the response together with the new value of the global \<^verbatim>\<open>ratings_df\<close>.
  \<^verbatim>\<open>
  if not all([user_id, item_id, rating]):
      return jsonify({'error': 'Eksik parametreler'}), 400
  try:
      if ratings_df is None:
          ratings_df = pd.DataFrame(columns=[...])
      ...
      ratings_df.to_csv(RATINGS_DATA_PATH, index=False)
      return jsonify({'success': True, ...})
  except Exception as e:
      return jsonify({'error': str(e)}), 500
  \<close>
\<close>

definition api_add_rating ::
  "(string \<rightharpoonup> value) \<Rightarrow> real \<Rightarrow> string option \<Rightarrow> ratings_frame option
     \<Rightarrow> unit response \<times> ratings_frame option" where
  "api_add_rating data now write_error ratings_df =
     (let u = dict_get data ''user_id'';
          i = dict_get data ''item_id'';
          r = dict_get data ''rating''
      in if \<not> (truthy u \<and> truthy i \<and> truthy r) then (Err 400 MissingParameters, ratings_df)
         else
           let df = (case ratings_df of None \<Rightarrow> [] | Some d \<Rightarrow> d);
               df' = upsert u i r now df
           in (case write_error of
                 None \<Rightarrow> (Ok (), Some df')
               | Some e \<Rightarrow> (Err 500 (Raised e), Some df')))"

text \<open>A sequence of requests, each with its clock reading and the outcome of its file
  write, run against the store from left to right.\<close>

fun add_ratings ::
  "((string \<rightharpoonup> value) \<times> real \<times> string option) list \<Rightarrow> ratings_frame option
     \<Rightarrow> ratings_frame option" where
  "add_ratings [] store = store"
| "add_ratings ((data, now, write_error) # reqs) store =
     add_ratings reqs (snd (api_add_rating data now write_error store))"

text \<open>The rows of a store, and the rows stored under a key.\<close>

definition rows_of :: "ratings_frame option \<Rightarrow> ratings_frame" where
  "rows_of store = (case store of None \<Rightarrow> [] | Some d \<Rightarrow> d)"

definition rows_for :: "value \<Rightarrow> value \<Rightarrow> ratings_frame \<Rightarrow> ratings_frame" where
  "rows_for u i df = filter (row_mask u i) df"

text \<open>
  \<^verbatim>\<open>combined_ratings.drop_duplicates(subset=['user_id', 'item_id'], keep='last')\<close>
  (integrate_movielens.py): a row stays when no later row has the same pair.
\<close>

fun drop_duplicates_last :: "ratings_frame \<Rightarrow> ratings_frame" where
  "drop_duplicates_last [] = []"
| "drop_duplicates_last (row # rows) =
     (if list_ex (row_mask (user_id row) (item_id row)) rows
      then drop_duplicates_last rows
      else row # drop_duplicates_last rows)"

subsection \<open>Catalog records and the MovieLens tables (integrate_movielens.py)\<close>

text \<open>
  A row of \<^verbatim>\<open>items.csv\<close>. The identifier column \<^verbatim>\<open>item_id\<close> is the field
  \<open>cat_item_id\<close> (the rating rows already have an \<open>item_id\<close>). The six numeric
  columns are \<open>None\<close> where the cell is NaN, and the four text columns that a detail
  response can overwrite are \<open>None\<close> where the cell holds no string (NaN in a file
  read back, \<^verbatim>\<open>None\<close> after a JSON \<^verbatim>\<open>null\<close>).
\<close>

record item =
  cat_item_id :: int
  title :: string
  overview :: "string option"
  poster_path :: "string option"
  release_date :: "string option"
  vote_average :: "real option"
  vote_count :: "real option"
  popularity :: "real option"
  original_language :: "string option"
  content_type :: string
  tmdb_details :: string
  genres :: string
  release_year :: int
  popularity_norm :: "real option"
  vote_average_norm :: "real option"
  vote_count_norm :: "real option"
  features_text :: string

text \<open>Rows of \<^verbatim>\<open>movies.csv\<close>, \<^verbatim>\<open>links.csv\<close> and \<^verbatim>\<open>ratings.csv\<close> of MovieLens.
  An empty \<^verbatim>\<open>title\<close>, \<^verbatim>\<open>genres\<close> or \<^verbatim>\<open>tmdbId\<close> cell is read as NaN and is
  \<open>None\<close> here. The integer columns are \<^verbatim>\<open>int64\<close>; a \<^verbatim>\<open>tmdbId\<close> column with an
  empty cell is \<^verbatim>\<open>float64\<close>, and its cells are then the identifiers as that type
  holds them.\<close>

record movie_row =
  m_movieId :: int
  m_title :: "string option"
  m_genres :: "string option"

record link_row =
  l_movieId :: int
  l_tmdbId :: "int option"

record ml_rating_row =
  r_userId :: int
  r_movieId :: int
  r_rating :: real
  r_timestamp :: int

text \<open>The exceptions that leave the integration script uncaught.\<close>

datatype py_exception = TypeError | KeyError

text \<open>
  A key of a JSON object: absent, present with \<^verbatim>\<open>null\<close>, or present with a value.
\<close>

datatype 'a json_field = Absent | Null | Present 'a

text \<open>
  The JSON object of a TMDb detail response, by the keys the script reads.
  An entry of \<^verbatim>\<open>genres\<close> is the string under its \<^verbatim>\<open>name\<close> key, or \<open>None\<close> when
  the entry has no such key. \<open>d_other_keys\<close> says whether the object has any further
  key (it decides, with the others, whether the dictionary is empty).
\<close>

record details =
  d_overview :: "string json_field"
  d_poster_path :: "string json_field"
  d_release_date :: "string json_field"
  d_vote_average :: "real json_field"
  d_vote_count :: "real json_field"
  d_popularity :: "real json_field"
  d_original_language :: "string json_field"
  d_genres :: "string option list json_field"
  d_other_keys :: bool

text \<open>What one call of \<^verbatim>\<open>requests.get\<close> followed by \<^verbatim>\<open>response.json()\<close> can do:
  raise (connection error, timeout), or return a status code with a body that parses
  or does not.\<close>

datatype tmdb_body = BadJson | Json details

datatype tmdb_reply = RequestRaised string | Reply nat tmdb_body

subsection \<open>String helpers of the Python runtime\<close>

text \<open>\<^verbatim>\<open>str.isdigit\<close> below code point 256: the ASCII digits and the superscripts
  one, two, three (185, 178, 179).\<close>

definition ascii_digit :: "char \<Rightarrow> bool" where
  "ascii_digit c = (48 \<le> (of_char c :: nat) \<and> (of_char c :: nat) \<le> 57)"

definition isdigit :: "string \<Rightarrow> bool" where
  "isdigit s = (s \<noteq> [] \<and> list_all (\<lambda>c. ascii_digit c \<or> (of_char c :: nat) \<in> {178, 179, 185}) s)"

definition digit_val :: "char \<Rightarrow> nat" where
  "digit_val c = of_char c - 48"

text \<open>The digits of \<^verbatim>\<open>int(s)\<close> after the first one: digits, each optionally preceded
  by one underscore.\<close>

fun digits_from :: "nat \<Rightarrow> string \<Rightarrow> nat option" where
  "digits_from acc [] = Some acc"
| "digits_from acc [c] = (if ascii_digit c then Some (10 * acc + digit_val c) else None)"
| "digits_from acc (c # c' # cs) =
     (if c = CHR ''_''
      then (if ascii_digit c' then digits_from (10 * acc + digit_val c') cs else None)
      else if ascii_digit c then digits_from (10 * acc + digit_val c) (c' # cs)
      else None)"

definition unsigned_int :: "string \<Rightarrow> nat option" where
  "unsigned_int s =
     (case s of [] \<Rightarrow> None
      | c # cs \<Rightarrow> if ascii_digit c then digits_from (digit_val c) cs else None)"

text \<open>\<^verbatim>\<open>int(s)\<close> on a string: surrounding whitespace is dropped, one sign is allowed;
  \<open>None\<close> is the \<^verbatim>\<open>ValueError\<close>.\<close>

definition py_int :: "string \<Rightarrow> int option" where
  "py_int s =
     (case strip s of [] \<Rightarrow> None
      | c # cs \<Rightarrow>
          if c = CHR ''-'' then map_option (\<lambda>n. - int n) (unsigned_int cs)
          else if c = CHR ''+'' then map_option int (unsigned_int cs)
          else map_option int (unsigned_int (c # cs)))"

text \<open>\<^verbatim>\<open>str(n)\<close> of a natural number.\<close>

function str_nat :: "nat \<Rightarrow> string" where
  "str_nat n =
     (if n < 10 then [char_of (48 + n)]
      else str_nat (n div 10) @ [char_of (48 + n mod 10)])"
  by pat_completeness auto
termination
  by (relation "measure id") auto

text \<open>\<^verbatim>\<open>s.rfind(c)\<close> for a character that occurs in \<open>s\<close>, and the slice \<^verbatim>\<open>s[a:b]\<close>
  for indices that are not negative.\<close>

definition rfind :: "char \<Rightarrow> string \<Rightarrow> nat" where
  "rfind c s = length s - 1 - length (takeWhile (\<lambda>x. x \<noteq> c) (rev s))"

definition slice :: "string \<Rightarrow> nat \<Rightarrow> nat \<Rightarrow> string" where
  "slice s a b = take (b - a) (drop a s)"

text \<open>\<^verbatim>\<open>s.replace('|', ', ')\<close> and \<^verbatim>\<open>', '.join(xs)\<close>.\<close>

definition replace_bar :: "string \<Rightarrow> string" where
  "replace_bar s = concat (map (\<lambda>c. if c = CHR ''|'' then '', '' else [c]) s)"

fun join_comma :: "string list \<Rightarrow> string" where
  "join_comma [] = []"
| "join_comma [x] = x"
| "join_comma (x # y # ys) = x @ '', '' @ join_comma (y # ys)"

subsection \<open>\<^verbatim>\<open>get_tmdb_movie_details\<close>\<close>

text \<open>
  \<^verbatim>\<open>
  def get_tmdb_movie_details(tmdb_id):
      if not TMDB_API_KEY:
          return None
      try:
          ...
          response = requests.get(url, params=params, timeout=10)
          if response.status_code == 200:
              return response.json()
      except Exception as e:
          print(...)
      return None
  \<close>
  \<open>api_key\<close> says whether \<^verbatim>\<open>TMDB_API_KEY\<close> is set, \<open>fetch\<close> is the network: the
  reply to the request for an identifier.
\<close>

definition get_tmdb_movie_details :: "bool \<Rightarrow> (int \<Rightarrow> tmdb_reply) \<Rightarrow> int \<Rightarrow> details option" where
  "get_tmdb_movie_details api_key fetch tmdb_id =
     (if \<not> api_key then None
      else case fetch tmdb_id of
             RequestRaised e \<Rightarrow> None
           | Reply code body \<Rightarrow>
               if code = 200 then (case body of BadJson \<Rightarrow> None | Json d \<Rightarrow> Some d)
               else None)"

subsection \<open>\<^verbatim>\<open>create_item_from_movielens\<close>\<close>

text \<open>
  \<^verbatim>\<open>
  link_row = links_df[links_df['movieId'] == movie_id]
  if link_row.empty or pd.isna(link_row['tmdbId'].values[0]):
      return None
  tmdb_id = int(link_row['tmdbId'].values[0])
  \<close>
  The first link row of the movie decides.
\<close>

definition lookup_tmdb :: "link_row list \<Rightarrow> int \<Rightarrow> int option" where
  "lookup_tmdb links_df movie_id =
     (case filter (\<lambda>l. l_movieId l = movie_id) links_df of
        [] \<Rightarrow> None
      | l # _ \<Rightarrow> l_tmdbId l)"

text \<open>
  \<^verbatim>\<open>
  release_year = None
  if '(' in title and ')' in title:
      try:
          year_str = title[title.rfind('(')+1:title.rfind(')')]
          if year_str.isdigit():
              release_year = int(year_str)
      except:
          pass
  \<close>
\<close>

definition year_of_title :: "string \<Rightarrow> int option" where
  "year_of_title t =
     (if CHR ''('' \<in> set t \<and> CHR '')'' \<in> set t
      then (let year_str = slice t (rfind (CHR ''('') t + 1) (rfind (CHR '')'') t)
            in if isdigit year_str then py_int year_str else None)
      else None)"

text \<open>\<^verbatim>\<open>release_year if release_year else 0\<close>: \<^verbatim>\<open>None\<close> and 0 both give 0, and
  \<^verbatim>\<open>if release_year\<close> holds exactly when this number is not 0.\<close>

definition year_or_zero :: "int option \<Rightarrow> int" where
  "year_or_zero y = (case y of None \<Rightarrow> 0 | Some n \<Rightarrow> n)"

text \<open>The dictionary \<^verbatim>\<open>item = {...}\<close> that the function builds from the title and
  the genres of a movie row and its TMDb identifier.\<close>

definition new_item :: "string \<Rightarrow> string option \<Rightarrow> int \<Rightarrow> item" where
  "new_item t movie_genres tmdb_id =
     (let g = (case movie_genres of Some s \<Rightarrow> replace_bar s | None \<Rightarrow> []);
          y = year_or_zero (year_of_title t)
      in \<lparr>cat_item_id = tmdb_id,
          title = t,
          overview = Some [],
          poster_path = Some [],
          release_date = Some (if y \<noteq> 0 then str_nat (nat y) @ ''-01-01'' else []),
          vote_average = Some 0,
          vote_count = Some 0,
          popularity = Some 0,
          original_language = Some ''en'',
          content_type = ''movie'',
          tmdb_details = ''{}'',
          genres = g,
          release_year = y,
          popularity_norm = Some 0,
          vote_average_norm = Some 0,
          vote_count_norm = Some 0,
          features_text = t @ '' '' @ g\<rparr>)"

text \<open>
  \<^verbatim>\<open>
  if link_row.empty or pd.isna(link_row['tmdbId'].values[0]):
      return None
  tmdb_id = int(link_row['tmdbId'].values[0])
  if tmdb_id in existing_tmdb_ids:
      return None
  title = movie_row['title']
  genres = movie_row['genres'].replace('|', ', ') if pd.notna(movie_row['genres']) else ''
  release_year = None
  if '(' in title and ')' in title:
      try:
          ...
  \<close>
  The membership test \<^verbatim>\<open>'(' in title\<close> stands before the \<^verbatim>\<open>try\<close>: on a title that
  is NaN (a float) it raises \<^verbatim>\<open>TypeError\<close>, and nothing in the function catches it.
  The result is \<open>Inl\<close> of the exception, or \<open>Inr\<close> of what the function returns.
\<close>

definition create_item_from_movielens ::
  "movie_row \<Rightarrow> link_row list \<Rightarrow> int set \<Rightarrow> py_exception + item option" where
  "create_item_from_movielens movie_row links_df existing_tmdb_ids =
     (case lookup_tmdb links_df (m_movieId movie_row) of
        None \<Rightarrow> Inr None
      | Some tmdb_id \<Rightarrow>
          if tmdb_id \<in> existing_tmdb_ids then Inr None
          else (case m_title movie_row of
                  None \<Rightarrow> Inl TypeError
                | Some t \<Rightarrow> Inr (Some (new_item t (m_genres movie_row) tmdb_id))))"

subsection \<open>\<^verbatim>\<open>enrich_with_tmdb\<close>\<close>

text \<open>\<^verbatim>\<open>if details:\<close> is false for \<^verbatim>\<open>None\<close> and for the empty dictionary.\<close>

definition details_nonempty :: "details \<Rightarrow> bool" where
  "details_nonempty d =
     (d_overview d \<noteq> Absent \<or> d_poster_path d \<noteq> Absent \<or> d_release_date d \<noteq> Absent
      \<or> d_vote_average d \<noteq> Absent \<or> d_vote_count d \<noteq> Absent \<or> d_popularity d \<noteq> Absent
      \<or> d_original_language d \<noteq> Absent \<or> d_genres d \<noteq> Absent \<or> d_other_keys d)"

text \<open>\<^verbatim>\<open>details.get(key, default)\<close>: the default for an absent key, \<^verbatim>\<open>None\<close> for a
  \<^verbatim>\<open>null\<close>.\<close>

definition get_or :: "'a json_field \<Rightarrow> 'a option \<Rightarrow> 'a option" where
  "get_or v dflt = (case v of Absent \<Rightarrow> dflt | Null \<Rightarrow> None | Present x \<Rightarrow> Some x)"

text \<open>
  \<^verbatim>\<open>
  if 'genres' in details:
      item['genres'] = ', '.join([g['name'] for g in details['genres']])
  \<close>
  Nothing catches what this line raises: \<^verbatim>\<open>TypeError\<close> when \<^verbatim>\<open>genres\<close> is
  \<^verbatim>\<open>null\<close>, \<^verbatim>\<open>KeyError\<close> when an entry has no \<^verbatim>\<open>name\<close>.
\<close>

definition joined_genres :: "string option list json_field \<Rightarrow> string \<Rightarrow> py_exception + string" where
  "joined_genres v old =
     (case v of
        Absent \<Rightarrow> Inr old
      | Null \<Rightarrow> Inl TypeError
      | Present entries \<Rightarrow>
          (case those entries of None \<Rightarrow> Inl KeyError | Some names \<Rightarrow> Inr (join_comma names)))"

text \<open>
  \<^verbatim>\<open>
  if details.get('release_date'):
      try:
          item['release_year'] = int(details['release_date'][:4])
      except:
          pass
  \<close>
\<close>

definition year_of_details :: "string json_field \<Rightarrow> int \<Rightarrow> int" where
  "year_of_details v old =
     (case v of
        Present rd \<Rightarrow>
          if rd = [] then old else (case py_int (take 4 rd) of None \<Rightarrow> old | Some y \<Rightarrow> y)
      | _ \<Rightarrow> old)"

text \<open>\<^verbatim>\<open>f"{...}"\<close> of a value that is a string or \<^verbatim>\<open>None\<close>.\<close>

definition fmt :: "string option \<Rightarrow> string" where
  "fmt v = (case v of None \<Rightarrow> ''None'' | Some s \<Rightarrow> s)"

text \<open>
  \<^verbatim>\<open>
  item['overview'] = details.get('overview', '')
  item['poster_path'] = details.get('poster_path', '')
  item['release_date'] = details.get('release_date', item['release_date'])
  item['vote_average'] = details.get('vote_average', 0)
  item['vote_count'] = details.get('vote_count', 0)
  item['popularity'] = details.get('popularity', 0)
  item['original_language'] = details.get('original_language', 'en')
  ...
  item['features_text'] = f"{item['title']} {item['genres']} {item['overview']}"
  \<close>
\<close>

definition apply_details :: "details \<Rightarrow> item \<Rightarrow> py_exception + item" where
  "apply_details d it =
     (case joined_genres (d_genres d) (genres it) of
        Inl x \<Rightarrow> Inl x
      | Inr gs \<Rightarrow>
          let ov = get_or (d_overview d) (Some [])
          in Inr (it\<lparr>overview := ov,
                      poster_path := get_or (d_poster_path d) (Some []),
                      release_date := get_or (d_release_date d) (release_date it),
                      vote_average := get_or (d_vote_average d) (Some 0),
                      vote_count := get_or (d_vote_count d) (Some 0),
                      popularity := get_or (d_popularity d) (Some 0),
                      original_language := get_or (d_original_language d) (Some ''en''),
                      genres := gs,
                      release_year := year_of_details (d_release_date d) (release_year it),
                      features_text := title it @ '' '' @ gs @ '' '' @ fmt ov\<rparr>))"

definition enrich_with_tmdb ::
  "bool \<Rightarrow> (int \<Rightarrow> tmdb_reply) \<Rightarrow> item \<Rightarrow> int \<Rightarrow> py_exception + item" where
  "enrich_with_tmdb api_key fetch it tmdb_id =
     (case get_tmdb_movie_details api_key fetch tmdb_id of
        None \<Rightarrow> Inr it
      | Some d \<Rightarrow> if details_nonempty d then apply_details d it else Inr it)"

subsection \<open>The item loop of \<^verbatim>\<open>integrate_movielens\<close>\<close>

text \<open>
  \<^verbatim>\<open>
  for idx, movie_row in movies_to_process.iterrows():
      item = create_item_from_movielens(movie_row, links_df, existing_tmdb_ids)
      if item:
          if enrich_from_tmdb:
              item = enrich_with_tmdb(item, item['item_id'])
              time.sleep(0.25)
          new_items.append(item)
          existing_tmdb_ids.add(item['item_id'])
          ...
  \<close>
  The loop has no \<^verbatim>\<open>try\<close>: an exception that leaves one of the two calls ends it,
  and the result is \<open>Inl\<close> of that exception. Otherwise the function returns
  \<^verbatim>\<open>new_items\<close>; the set of known identifiers is threaded through the recursion.
\<close>

fun new_items_loop ::
  "bool \<Rightarrow> (int \<Rightarrow> tmdb_reply) \<Rightarrow> bool \<Rightarrow> link_row list \<Rightarrow> movie_row list \<Rightarrow> int set
     \<Rightarrow> py_exception + item list" where
  "new_items_loop api_key fetch enrich_from_tmdb links_df [] existing_tmdb_ids = Inr []"
| "new_items_loop api_key fetch enrich_from_tmdb links_df (movie_row # rest) existing_tmdb_ids =
     (case create_item_from_movielens movie_row links_df existing_tmdb_ids of
        Inl x \<Rightarrow> Inl x
      | Inr None \<Rightarrow> new_items_loop api_key fetch enrich_from_tmdb links_df rest existing_tmdb_ids
      | Inr (Some it) \<Rightarrow>
          (case (if enrich_from_tmdb
                 then enrich_with_tmdb api_key fetch it (cat_item_id it) else Inr it) of
             Inl x \<Rightarrow> Inl x
           | Inr it' \<Rightarrow>
               (case new_items_loop api_key fetch enrich_from_tmdb links_df rest
                       (insert (cat_item_id it') existing_tmdb_ids) of
                  Inl x \<Rightarrow> Inl x
                | Inr new_items \<Rightarrow> Inr (it' # new_items))))"

subsection \<open>Normalisation of the numeric columns\<close>

text \<open>\<^verbatim>\<open>Series.max()\<close> skips NaN and is NaN on a column without numbers.\<close>

fun max_list :: "real list \<Rightarrow> real option" where
  "max_list [] = None"
| "max_list (x # xs) = (case max_list xs of None \<Rightarrow> Some x | Some m \<Rightarrow> Some (max x m))"

definition col_max :: "real option list \<Rightarrow> real option" where
  "col_max col = max_list (List.map_filter (\<lambda>v. v) col)"

text \<open>Cell-wise division; NaN stays NaN.\<close>

definition div_cell :: "real option \<Rightarrow> real \<Rightarrow> real option" where
  "div_cell v m = map_option (\<lambda>x. x / m) v"

text \<open>A column divided by its maximum when \<^verbatim>\<open>max > 0\<close> (false for NaN), and left as
  it is otherwise.\<close>

definition norm_by_max :: "real option \<Rightarrow> real option \<Rightarrow> real option \<Rightarrow> real option" where
  "norm_by_max m raw old =
     (case m of None \<Rightarrow> old | Some x \<Rightarrow> if 0 < x then div_cell raw x else old)"

text \<open>
  \<^verbatim>\<open>
  if 'popularity' in combined_items.columns:
      max_pop = combined_items['popularity'].max()
      if max_pop > 0:
          combined_items['popularity_norm'] = combined_items['popularity'] / max_pop
  if 'vote_average' in combined_items.columns:
      combined_items['vote_average_norm'] = combined_items['vote_average'] / 10.0
  if 'vote_count' in combined_items.columns:
      max_votes = combined_items['vote_count'].max()
      if max_votes > 0:
          combined_items['vote_count_norm'] = combined_items['vote_count'] / max_votes
  \<close>
  The frame is built from \<^verbatim>\<open>new_items\<close>, whose dictionaries have all three
  columns, so the three column tests are true.
\<close>

definition normalize :: "item list \<Rightarrow> item list" where
  "normalize combined_items =
     (let max_pop = col_max (map popularity combined_items);
          max_votes = col_max (map vote_count combined_items)
      in map (\<lambda>it.
           it\<lparr>popularity_norm := norm_by_max max_pop (popularity it) (popularity_norm it),
               vote_average_norm := div_cell (vote_average it) 10,
               vote_count_norm := norm_by_max max_votes (vote_count it) (vote_count_norm it)\<rparr>)
           combined_items)"

subsection \<open>\<^verbatim>\<open>convert_movielens_ratings\<close>\<close>

text \<open>\<^verbatim>\<open>userId\<close> is an \<^verbatim>\<open>int64\<close> column; adding 1000 to it wraps around.\<close>

definition int64 :: "int \<Rightarrow> int" where
  "int64 x = (x + 2 ^ 63) mod 2 ^ 64 - 2 ^ 63"

text \<open>
  An integer of the \<^verbatim>\<open>int64\<close> range stored in a \<^verbatim>\<open>float64\<close> cell: the nearest
  number with 53 significant bits, ties to the even one. \<open>e\<close> is the number of bits
  beyond 53.
\<close>

definition f64_int :: "int \<Rightarrow> int" where
  "f64_int x =
     (let a = \<bar>x\<bar>;
          e = length (filter (\<lambda>k. 2 ^ (53 + k) \<le> a) [0, 1, 2, 3, 4, 5, 6, 7, 8, 9, 10 :: nat])
      in if e = 0 then x
         else
           let q = a div 2 ^ e;
               r = a mod 2 ^ e;
               h = 2 ^ (e - 1);
               q' = (if h < r \<or> (r = h \<and> odd q) then q + 1 else q)
           in sgn x * (q' * 2 ^ e))"

text \<open>
  \<^verbatim>\<open>
  ml_ratings_df = ml_ratings_df.merge(links_df[['movieId', 'tmdbId']], on='movieId', how='left')
  ml_ratings_df = ml_ratings_df.dropna(subset=['tmdbId'])
  ml_ratings_df['tmdbId'] = ml_ratings_df['tmdbId'].astype(int)
  converted_ratings = pd.DataFrame({
      'user_id': ml_ratings_df['userId'] + 1000,
      'item_id': ml_ratings_df['tmdbId'],
      'rating': ml_ratings_df['rating'],
      'timestamp': ml_ratings_df['timestamp']})
  \<close>
  The left merge keeps the order of the rating rows and pairs each with every link row
  of its movie, in the order of the links (with a NaN \<^verbatim>\<open>tmdbId\<close> when there is
  none); \<^verbatim>\<open>dropna\<close> then removes the pairs without a \<^verbatim>\<open>tmdbId\<close>.
\<close>

definition merge_left :: "ml_rating_row list \<Rightarrow> link_row list \<Rightarrow> (ml_rating_row \<times> int option) list" where
  "merge_left ml_ratings_df links_df =
     concat (map (\<lambda>r.
       (case filter (\<lambda>l. l_movieId l = r_movieId r) links_df of
          [] \<Rightarrow> [(r, None)]
        | ls \<Rightarrow> map (\<lambda>l. (r, l_tmdbId l)) ls)) ml_ratings_df)"

text \<open>
  The merged \<^verbatim>\<open>tmdbId\<close> column is \<^verbatim>\<open>float64\<close> when it has a NaN to hold: when the
  links table has an empty \<^verbatim>\<open>tmdbId\<close> cell, or a rating row has no link row. Its
  identifiers then pass through \<^verbatim>\<open>float64\<close> before \<^verbatim>\<open>astype(int)\<close>. (The cast of
  a float beyond the \<^verbatim>\<open>int64\<close> range is left as the float's value.)
\<close>

definition float_column :: "ml_rating_row list \<Rightarrow> link_row list \<Rightarrow> bool" where
  "float_column ml_ratings_df links_df =
     (list_ex (\<lambda>l. l_tmdbId l = None) links_df
      \<or> list_ex (\<lambda>r. list_all (\<lambda>l. l_movieId l \<noteq> r_movieId r) links_df) ml_ratings_df)"

definition tmdb_cell :: "bool \<Rightarrow> int \<Rightarrow> int" where
  "tmdb_cell as_float t = (if as_float then f64_int t else t)"

definition convert_row :: "ml_rating_row \<Rightarrow> int \<Rightarrow> rating_row" where
  "convert_row r tmdb =
     \<lparr>user_id = VInt (int64 (r_userId r + 1000)),
      item_id = VInt tmdb,
      rating = VFloat (r_rating r),
      timestamp = VInt (r_timestamp r)\<rparr>"

definition convert_movielens_ratings :: "ml_rating_row list \<Rightarrow> link_row list \<Rightarrow> ratings_frame" where
  "convert_movielens_ratings ml_ratings_df links_df =
     List.map_filter
       (\<lambda>(r, t). map_option (\<lambda>t. convert_row r (tmdb_cell (float_column ml_ratings_df links_df) t)) t)
       (merge_left ml_ratings_df links_df)"

subsection \<open>\<^verbatim>\<open>integrate_movielens\<close>\<close>

text \<open>
  The inputs are the files and the network: the three MovieLens tables, the existing
  \<^verbatim>\<open>items.csv\<close> and \<^verbatim>\<open>ratings.csv\<close> (empty lists when the files are absent), the
  rows \<open>ml_ratings_sample\<close> that the seeded sampling selects (all rows when no sample
  size is given), and \<open>max_movies\<close>, which cuts the movie table as
  \<^verbatim>\<open>movies_df if max_movies is None else movies_df.head(max_movies)\<close> does. The result records what is written to
  \<^verbatim>\<open>items.csv\<close> (\<open>None\<close> when the file is not written), and the two returned frames;
  the returned ratings are also what is written to \<^verbatim>\<open>ratings.csv\<close>. When the item
  loop raises, the run ends there, before either file is written: the result is \<open>Inl\<close>
  of the exception.
\<close>

definition movies_to_process :: "nat option \<Rightarrow> movie_row list \<Rightarrow> movie_row list" where
  "movies_to_process max_movies movies_df =
     (case max_movies of None \<Rightarrow> movies_df | Some n \<Rightarrow> take n movies_df)"

record integration =
  items_saved :: "item list option"
  items_returned :: "item list"
  ratings_returned :: ratings_frame

definition integrate_movielens ::
  "bool \<Rightarrow> (int \<Rightarrow> tmdb_reply) \<Rightarrow> bool \<Rightarrow> nat option
     \<Rightarrow> movie_row list \<Rightarrow> ml_rating_row list \<Rightarrow> link_row list
     \<Rightarrow> item list \<Rightarrow> ratings_frame \<Rightarrow> py_exception + integration" where
  "integrate_movielens api_key fetch enrich_from_tmdb max_movies
       movies_df ml_ratings_sample links_df existing_items existing_ratings =
     (let existing_tmdb_ids = set (map cat_item_id existing_items)
      in case new_items_loop api_key fetch enrich_from_tmdb links_df
                (movies_to_process max_movies movies_df) existing_tmdb_ids of
           Inl x \<Rightarrow> Inl x
         | Inr new_items \<Rightarrow>
             let combined_items = normalize (existing_items @ new_items);
                 converted_ratings = convert_movielens_ratings ml_ratings_sample links_df;
                 combined_ratings = drop_duplicates_last (existing_ratings @ converted_ratings)
             in Inr \<lparr>items_saved = (if new_items \<noteq> [] then Some combined_items else None),
                     items_returned = (if new_items \<noteq> [] then combined_items else existing_items),
                     ratings_returned = combined_ratings\<rparr>)"

subsection \<open>The query surface (app.py)\<close>

text \<open>
  The model classes (\<^verbatim>\<open>CollaborativeFiltering\<close>, \<^verbatim>\<open>ContentBasedFiltering\<close>,
  \<^verbatim>\<open>HybridRecommender\<close>) are imported by \<^verbatim>\<open>app.py\<close>; here a loaded model is the
  function its scoring method computes, from the user id, the requested count and the
  rating frame to either the message of the exception it raises or its list of
  (item id, score) pairs. The globals \<^verbatim>\<open>cf_model\<close>, \<^verbatim>\<open>cb_model\<close>,
  \<^verbatim>\<open>hybrid_model\<close> are \<open>None\<close> until a model is loaded; a loaded model object is
  truthy.
\<close>

type_synonym recs = "(int \<times> real) list"

type_synonym scorer = "int \<Rightarrow> int \<Rightarrow> ratings_frame option \<Rightarrow> string + recs"

text \<open>One entry of the \<^verbatim>\<open>recommendations\<close> array of the response.\<close>

record result_row =
  res_item_id :: int
  res_score :: real
  res_title :: string
  res_content_type :: string
  res_poster_path :: string
  res_overview :: string

record recommendations_body =
  body_user_id :: int
  body_strategy :: string
  body_recommendations :: "result_row list"
  body_count :: nat

text \<open>
  \<^verbatim>\<open>
  item_info = {}
  if items_df is not None and item_id in items_df['item_id'].values:
      item_info = items_df[items_df['item_id'] == item_id].iloc[0].to_dict()
      ...
  results.append({'item_id': item_id, 'score': score,
                  'title': clean_text(item_info.get('title', '')),
                  'content_type': item_info.get('content_type', ''),
                  'poster_path': item_info.get('poster_path', ''),
                  'overview': clean_text(item_info.get('overview', ''))})
  \<close>
\<close>

definition item_info :: "item list option \<Rightarrow> int \<Rightarrow> item option" where
  "item_info items_df i =
     (case items_df of
        None \<Rightarrow> None
      | Some df \<Rightarrow> (case filter (\<lambda>it. cat_item_id it = i) df of [] \<Rightarrow> None | it # _ \<Rightarrow> Some it))"

text \<open>Cells that are NaN or \<^verbatim>\<open>None\<close> are dropped from \<^verbatim>\<open>item_info\<close>, so their
  \<^verbatim>\<open>get\<close> gives the default, the empty string.\<close>

definition cell_or_empty :: "string option \<Rightarrow> string" where
  "cell_or_empty v = (case v of None \<Rightarrow> [] | Some s \<Rightarrow> s)"

definition result_of :: "item list option \<Rightarrow> int \<times> real \<Rightarrow> result_row" where
  "result_of items_df p =
     (case item_info items_df (fst p) of
        None \<Rightarrow>
          \<lparr>res_item_id = fst p, res_score = snd p, res_title = clean_text (VStr []),
           res_content_type = [], res_poster_path = [], res_overview = clean_text (VStr [])\<rparr>
      | Some it \<Rightarrow>
          \<lparr>res_item_id = fst p, res_score = snd p, res_title = clean_text (VStr (title it)),
           res_content_type = content_type it,
           res_poster_path = cell_or_empty (poster_path it),
           res_overview = clean_text (VStr (cell_or_empty (overview it)))\<rparr>)"

text \<open>
  \<^verbatim>\<open>
  try:
      if strategy == 'collaborative' and cf_model:
          recommendations = cf_model.recommend(user_id, n=limit)
      elif strategy == 'content_based' and cb_model:
          recommendations = cb_model.recommend_for_user(user_id, n=limit, ratings_df=ratings_df)
      elif hybrid_model:
          recommendations = hybrid_model.recommend(user_id, n=limit, ratings_df=ratings_df)
      else:
          return jsonify({'error': 'Model yuklenmedi'}), 500
      ...
      return jsonify({'user_id': user_id, 'strategy': strategy,
                      'recommendations': results, 'count': len(results)})
  except Exception as e:
      return jsonify({'error': str(e)}), 500
  \<close>
  \<open>model_answer\<close> is the branch taken: \<open>None\<close> for the \<^verbatim>\<open>else\<close>, otherwise what
  the called model does.
\<close>

definition model_answer ::
  "scorer option \<Rightarrow> scorer option \<Rightarrow> scorer option \<Rightarrow> ratings_frame option
     \<Rightarrow> int \<Rightarrow> int \<Rightarrow> string \<Rightarrow> (string + recs) option" where
  "model_answer cf_model cb_model hybrid_model ratings_df uid limit strategy =
     (if strategy = ''collaborative'' \<and> cf_model \<noteq> None
      then map_option (\<lambda>m. m uid limit None) cf_model
      else if strategy = ''content_based'' \<and> cb_model \<noteq> None
      then map_option (\<lambda>m. m uid limit ratings_df) cb_model
      else map_option (\<lambda>m. m uid limit ratings_df) hybrid_model)"

definition api_recommendations ::
  "scorer option \<Rightarrow> scorer option \<Rightarrow> scorer option \<Rightarrow> item list option
     \<Rightarrow> ratings_frame option \<Rightarrow> int \<Rightarrow> int \<Rightarrow> string \<Rightarrow> recommendations_body response" where
  "api_recommendations cf_model cb_model hybrid_model items_df ratings_df uid limit strategy =
     (case model_answer cf_model cb_model hybrid_model ratings_df uid limit strategy of
        None \<Rightarrow> Err 500 ModelNotLoaded
      | Some (Inl e) \<Rightarrow> Err 500 (Raised e)
      | Some (Inr recommendations) \<Rightarrow>
          Ok \<lparr>body_user_id = uid, body_strategy = strategy,
              body_recommendations = map (result_of items_df) recommendations,
              body_count = length recommendations\<rparr>)"

text \<open>
  \<^verbatim>\<open>
  def get_ml_recommendations(user_id, n=10):
      try:
          if hybrid_model:
              return hybrid_model.recommend(user_id, n, ratings_df=ratings_df)
          if cb_model:
              return cb_model.recommend_for_user(user_id, n, ratings_df=ratings_df)
          return []
      except Exception as e:
          logger.error(...)
          return []
  \<close>
  The result is a sum as well, so that "the helper does not raise" is a statement about
  it and not a consequence of its type.
\<close>

definition get_ml_recommendations ::
  "scorer option \<Rightarrow> scorer option \<Rightarrow> ratings_frame option \<Rightarrow> int \<Rightarrow> int \<Rightarrow> string + recs" where
  "get_ml_recommendations hybrid_model cb_model ratings_df uid n =
     (let body = (case hybrid_model of
                    Some h \<Rightarrow> h uid n ratings_df
                  | None \<Rightarrow> (case cb_model of
                               Some c \<Rightarrow> c uid n ratings_df
                             | None \<Rightarrow> Inr []))
      in case body of Inl e \<Rightarrow> Inr [] | Inr r \<Rightarrow> Inr r)"

subsection \<open>The content-based model\<close>

text \<open>
  Modelled from the spec: the class \<^verbatim>\<open>ContentBasedFiltering\<close>
  (\<^verbatim>\<open>ml_recommendation_engine/models/content_based.py\<close>) is not among the sources; only
  its caller \<^verbatim>\<open>api_similar_items\<close> is. By the specification, training builds for
  every item of the catalog the list of the other items with their similarity to it,
  most similar first, cut to the configured neighbour limit \<open>K\<close>; and
  \<^verbatim>\<open>get_similar_items(item_id, n)\<close> returns the first \<open>n\<close> entries of the row of
  \<open>item_id\<close>, and fails with NotFound when the item is not in the trained catalog. The
  cosine similarity of two feature vectors is a parameter \<open>sim\<close>.
\<close>

datatype query_error = NotFound

record content_based_model =
  trained_ids :: "int list"
  similarity_index :: "(int \<times> recs) list"

definition similarity_row :: "(item \<Rightarrow> item \<Rightarrow> real) \<Rightarrow> nat \<Rightarrow> item list \<Rightarrow> item \<Rightarrow> recs" where
  "similarity_row sim K catalog it =
     take K (sort_key (\<lambda>p. - snd p)
       (map (\<lambda>other. (cat_item_id other, sim it other))
          (filter (\<lambda>other. cat_item_id other \<noteq> cat_item_id it) catalog)))"

definition train :: "(item \<Rightarrow> item \<Rightarrow> real) \<Rightarrow> nat \<Rightarrow> item list \<Rightarrow> content_based_model" where
  "train sim K catalog =
     \<lparr>trained_ids = map cat_item_id catalog,
      similarity_index = map (\<lambda>it. (cat_item_id it, similarity_row sim K catalog it)) catalog\<rparr>"

definition get_similar_items :: "content_based_model \<Rightarrow> int \<Rightarrow> nat \<Rightarrow> query_error + recs" where
  "get_similar_items model i n =
     (case map_of (similarity_index model) i of
        None \<Rightarrow> Inl NotFound
      | Some row \<Rightarrow> Inr (take n row))"

section \<open>Properties\<close>

subsection \<open>Text cleaning\<close>

lemma sub_spaces_hd: "xs \<noteq> [] \<Longrightarrow> \<not> is_space (hd xs) \<Longrightarrow> hd (sub_spaces xs) = hd xs \<and> sub_spaces xs \<noteq> []"
  by (cases xs) auto

lemma sub_spaces_dropWhile_hd:
  "sub_spaces (dropWhile is_space cs) = [] \<or> \<not> is_space (hd (sub_spaces (dropWhile is_space cs)))"
proof (induction cs)
  case Nil
  show ?case by simp
next
  case (Cons c cs)
  show ?case
  proof (cases "is_space c")
    case True
    with Cons show ?thesis by simp
  next
    case False
    then show ?thesis by simp
  qed
qed

lemma sub_spaces_no_run: "successively (\<lambda>a b. \<not> (is_space a \<and> is_space b)) (sub_spaces s)"
proof (induction s rule: sub_spaces.induct)
  case 1
  show ?case by simp
next
  case (2 c cs)
  show ?case
  proof (cases "is_space c")
    case True
    have ih: "successively (\<lambda>a b. \<not> (is_space a \<and> is_space b)) (sub_spaces (dropWhile is_space cs))"
      using 2(1) True by simp
    from ih True sub_spaces_dropWhile_hd[of cs] show ?thesis
      by (auto simp: successively_Cons)
  next
    case False
    with 2(2) show ?thesis by (auto simp: successively_Cons)
  qed
qed

lemma successively_dropWhile: "successively P xs \<Longrightarrow> successively P (dropWhile Q xs)"
  by (induction xs) (auto simp: successively_Cons)

lemma successively_rev_sym:
  assumes "\<And>a b. P a b = P b a"
  shows "successively P (rev xs) = successively P xs"
proof -
  have flip: "(\<lambda>x y. P y x) = P" using assms by (intro ext) simp
  show ?thesis unfolding successively_rev flip by (rule refl)
qed

lemma strip_no_run:
  assumes "successively (\<lambda>a b. \<not> (is_space a \<and> is_space b)) s"
  shows "successively (\<lambda>a b. \<not> (is_space a \<and> is_space b)) (strip s)"
proof -
  let ?P = "\<lambda>a b. \<not> (is_space a \<and> is_space b)"
  have sym: "\<And>xs. successively ?P (rev xs) = successively ?P xs"
    by (rule successively_rev_sym) auto
  have "successively ?P (dropWhile is_space s)" using assms by (rule successively_dropWhile)
  then have "successively ?P (rev (dropWhile is_space s))"
    by (simp only: sym)
  then have "successively ?P (dropWhile is_space (rev (dropWhile is_space s)))"
    by (rule successively_dropWhile)
  then show ?thesis unfolding strip_def by (simp only: sym)
qed

lemma set_sub_spaces: "set (sub_spaces s) \<subseteq> insert (CHR '' '') (set s)"
proof (induction s rule: sub_spaces.induct)
  case 1
  show ?case by simp
next
  case (2 c cs)
  have "set (dropWhile is_space cs) \<subseteq> set cs" by (auto dest: set_dropWhileD)
  with 2 show ?case by (auto split: if_splits)
qed

lemma set_strip: "set (strip s) \<subseteq> set s"
  by (auto simp: strip_def dest!: set_dropWhileD)

lemma sub_escaped_clean: "c \<in> set (sub_escaped s) \<Longrightarrow> \<not> escaped c"
  by (auto simp: sub_escaped_def escaped_def)

lemma takeWhile_dropWhile_Nil: "takeWhile P (dropWhile P xs) = []"
  by (induction xs) auto

lemma takeWhile_rev_dropWhile_rev:
  assumes "takeWhile P t = []"
  shows "takeWhile P (rev (dropWhile P (rev t))) = []"
proof (cases t)
  case Nil
  then show ?thesis by simp
next
  case (Cons x xs)
  with assms have nx: "\<not> P x" by (auto split: if_splits)
  have "dropWhile P (rev t) = dropWhile P (rev xs) @ [x] \<or> dropWhile P (rev t) = [x]"
    using Cons nx by (simp add: dropWhile_append)
  then show ?thesis using nx by auto
qed

lemma strip_leading: "takeWhile is_space (strip s) = []"
  unfolding strip_def by (rule takeWhile_rev_dropWhile_rev) (rule takeWhile_dropWhile_Nil)

lemma strip_trailing: "takeWhile is_space (rev (strip s)) = []"
  unfolding strip_def by (simp only: rev_rev_ident takeWhile_dropWhile_Nil)

text \<open>
  Claim C8. For every input value, \<open>clean_text\<close> returns a string without newline,
  carriage return, tab, backslash or double quote, without two adjacent whitespace
  characters, and without leading or trailing whitespace; every input that is not a
  string (\<open>None\<close>, booleans, numbers) yields the empty string.
\<close>

theorem clean_text_safe:
  "(\<forall>c \<in> set (clean_text v). \<not> escaped c)
   \<and> successively (\<lambda>a b. \<not> (is_space a \<and> is_space b)) (clean_text v)
   \<and> takeWhile is_space (clean_text v) = []
   \<and> takeWhile is_space (rev (clean_text v)) = []
   \<and> ((\<forall>s. v \<noteq> VStr s) \<longrightarrow> clean_text v = [])"
proof (cases v)
  case (VStr s)
  have "\<forall>c \<in> set (clean_text v). \<not> escaped c"
  proof
    fix c assume "c \<in> set (clean_text v)"
    then have "c \<in> set (sub_spaces (sub_escaped s))"
      using set_strip VStr by auto
    then have "c = CHR '' '' \<or> c \<in> set (sub_escaped s)"
      using set_sub_spaces by auto
    then show "\<not> escaped c"
      using sub_escaped_clean by (auto simp: escaped_def)
  qed
  moreover have "successively (\<lambda>a b. \<not> (is_space a \<and> is_space b)) (clean_text v)"
    unfolding VStr clean_text.simps by (rule strip_no_run) (rule sub_spaces_no_run)
  ultimately show ?thesis using VStr by (simp add: strip_leading strip_trailing)
qed simp_all

theorem clean_text_safe_witness:
  "clean_text (VStr [CHR '' '', CHR ''a'', CHR 0x0A, CHR 0x09, CHR ''b'', CHR 0x5C, CHR ''c'', CHR 0x22]) = ''a b c''
   \<and> list_all (\<lambda>c. \<not> escaped c) ''a b c''
   \<and> successively (\<lambda>a b. \<not> (is_space a \<and> is_space b)) ''a b c''
   \<and> takeWhile is_space ''a b c'' = []
   \<and> takeWhile is_space (rev ''a b c'') = []
   \<and> clean_text (VInt 7) = []"
  using clean_text_safe [of "VStr [CHR '' '', CHR ''a'', CHR 0x0A, CHR 0x09, CHR ''b'', CHR 0x5C, CHR ''c'', CHR 0x22]"]
    clean_text_safe [of "VInt 7"]
  by (simp add: strip_def sub_escaped_def escaped_def is_space_def)

subsection \<open>The rating store\<close>

lemma py_eq_sym: "py_eq a b = py_eq b a"
  by (cases a; cases b) auto

lemma py_eq_trans: "py_eq a b \<Longrightarrow> py_eq b c \<Longrightarrow> py_eq a c"
  by (cases a; cases b; cases c) (auto split: if_splits)

lemma row_mask_update [simp]: "row_mask u i (row\<lparr>rating := r, timestamp := t\<rparr>) = row_mask u i row"
  by (simp add: row_mask_def)

lemma rows_for_same_key:
  assumes "py_eq u u'" and "py_eq i i'"
  shows "rows_for u i df = rows_for u' i' df"
proof -
  have "row_mask u i = row_mask u' i'"
    unfolding row_mask_def fun_eq_iff using assms py_eq_sym py_eq_trans by blast
  then show ?thesis by (simp add: rows_for_def)
qed

lemma rows_for_upsert_hit:
  assumes "list_ex (row_mask u i) df"
  shows "rows_for u' i' (upsert u i r now df) =
         map (\<lambda>row. if row_mask u i row then row\<lparr>rating := r, timestamp := VFloat now\<rparr> else row)
           (rows_for u' i' df)"
  using assms by (simp add: upsert_def rows_for_def filter_map comp_def)

lemma rows_for_upsert_miss:
  assumes "\<not> list_ex (row_mask u i) df"
  shows "rows_for u' i' (upsert u i r now df) =
         (if py_eq u u' \<and> py_eq i i'
          then [\<lparr>user_id = u, item_id = i, rating = r, timestamp = VFloat now\<rparr>]
          else rows_for u' i' df)"
proof (cases "py_eq u u' \<and> py_eq i i'")
  case True
  then have "rows_for u' i' df = rows_for u i df"
    using rows_for_same_key by metis
  moreover have "rows_for u i df = []"
    using assms by (auto simp: rows_for_def list_ex_iff filter_empty_conv)
  ultimately show ?thesis using assms True
    by (simp add: upsert_def rows_for_def row_mask_def)
next
  case False
  then show ?thesis using assms by (auto simp: upsert_def rows_for_def row_mask_def)
qed

lemma upsert_one_per_key:
  assumes "\<forall>u i. length (rows_for u i df) \<le> 1"
  shows "length (rows_for u' i' (upsert u i r now df)) \<le> 1"
proof (cases "list_ex (row_mask u i) df")
  case True
  then show ?thesis using assms by (simp add: rows_for_upsert_hit)
next
  case False
  then show ?thesis using assms by (simp add: rows_for_upsert_miss)
qed

lemma rows_of_api_add_rating:
  "rows_of (snd (api_add_rating data now w store)) =
     (if truthy (dict_get data ''user_id'') \<and> truthy (dict_get data ''item_id'')
         \<and> truthy (dict_get data ''rating'')
      then upsert (dict_get data ''user_id'') (dict_get data ''item_id'')
             (dict_get data ''rating'') now (rows_of store)
      else rows_of store)"
  by (simp add: api_add_rating_def Let_def rows_of_def split: option.splits)

lemma api_add_rating_one_per_key:
  assumes "\<forall>u i. length (rows_for u i (rows_of store)) \<le> 1"
  shows "\<forall>u i. length (rows_for u i (rows_of (snd (api_add_rating data now w store)))) \<le> 1"
  unfolding rows_of_api_add_rating using assms upsert_one_per_key[OF assms] by presburger

lemma add_ratings_one_per_key:
  assumes "\<forall>u i. length (rows_for u i (rows_of store)) \<le> 1"
  shows "\<forall>u i. length (rows_for u i (rows_of (add_ratings reqs store))) \<le> 1"
  using assms
proof (induction reqs arbitrary: store)
  case Nil
  then show ?case by simp
next
  case (Cons req reqs)
  obtain data now w where req: "req = (data, now, w)" by (cases req)
  show ?case unfolding req add_ratings.simps
    by (rule Cons.IH) (rule api_add_rating_one_per_key[OF Cons.prems])
qed

lemma set_drop_duplicates_last: "set (drop_duplicates_last ys) \<subseteq> set ys"
  by (induction ys) auto

lemma rows_for_drop_duplicates_last:
  "length (rows_for u i (drop_duplicates_last df)) \<le> 1"
proof (induction df)
  case Nil
  show ?case by (simp add: rows_for_def)
next
  case (Cons row rows)
  show ?case
  proof (cases "list_ex (row_mask (user_id row) (item_id row)) rows")
    case True
    with Cons show ?thesis by simp
  next
    case False
    show ?thesis
    proof (cases "row_mask u i row")
      case m: True
      have "rows_for u i (drop_duplicates_last rows) = []"
      proof (rule ccontr)
        assume "rows_for u i (drop_duplicates_last rows) \<noteq> []"
        then obtain x where x: "x \<in> set (drop_duplicates_last rows)" "row_mask u i x"
          by (auto simp: rows_for_def filter_empty_conv)
        from x set_drop_duplicates_last have "x \<in> set rows" by blast
        moreover have "row_mask (user_id row) (item_id row) x"
          using m x(2) py_eq_sym py_eq_trans unfolding row_mask_def by blast
        ultimately show False using False by (auto simp: list_ex_iff)
      qed
      with False m show ?thesis by (simp add: rows_for_def)
    next
      case n: False
      with False Cons show ?thesis by (simp add: rows_for_def)
    qed
  qed
qed

lemma py_eq_refl: "py_eq a a"
  by (cases a) auto

lemma rows_for_after_upsert:
  assumes "\<forall>u i. length (rows_for u i df) \<le> 1"
  shows "length (rows_for u i (upsert u i r now df)) = 1
         \<and> list_all (\<lambda>row. rating row = r \<and> timestamp row = VFloat now)
              (rows_for u i (upsert u i r now df))
         \<and> (rows_for u i df \<noteq> [] \<longrightarrow> length (upsert u i r now df) = length df)"
proof (cases "list_ex (row_mask u i) df")
  case True
  then have ne: "rows_for u i df \<noteq> []"
    by (auto simp: rows_for_def list_ex_iff filter_empty_conv)
  have "length (rows_for u i df) \<le> 1" using assms by blast
  with ne have one: "length (rows_for u i df) = 1"
    by (cases "rows_for u i df") auto
  have all: "list_all (row_mask u i) (rows_for u i df)"
    by (simp add: rows_for_def list_all_iff)
  have "list_all (\<lambda>row. rating row = r \<and> timestamp row = VFloat now)
          (map (\<lambda>row. if row_mask u i row then row\<lparr>rating := r, timestamp := VFloat now\<rparr> else row)
             (rows_for u i df))"
    using all by (simp add: list_all_iff)
  with True one show ?thesis
    by (simp add: rows_for_upsert_hit) (simp add: upsert_def)
next
  case False
  then have "rows_for u i df = []"
    by (auto simp: rows_for_def list_ex_iff filter_empty_conv)
  with False show ?thesis
    by (simp add: rows_for_upsert_miss py_eq_refl)
qed

text \<open>
  Claim C3. After any sequence of rating requests the store holds at most one row per
  key, and a later event with the key of a stored rating overwrites its value and
  timestamp without adding a row. The store of \<^verbatim>\<open>app.py\<close> has no media-type
  column, so its key is the pair (user id, item id); at most one row per pair gives at
  most one row per (user id, item id, media type). The three conjuncts: the invariant is
  kept by every sequence of requests (it holds of the empty store); an accepted request
  leaves exactly one row under its key, carrying its rating and the clock reading, and
  does not lengthen a frame that already had the key; and the
  \<^verbatim>\<open>drop_duplicates\<close> of the integration script leaves at most one row per pair.
\<close>

theorem rating_store_one_per_key:
  "((\<forall>u i. length (rows_for u i (rows_of store)) \<le> 1) \<longrightarrow>
      (\<forall>u i. length (rows_for u i (rows_of (add_ratings reqs store))) \<le> 1))
   \<and> ((\<forall>u i. length (rows_for u i (rows_of store)) \<le> 1)
        \<and> dict_get data ''user_id'' = u \<and> dict_get data ''item_id'' = i
        \<and> dict_get data ''rating'' = r \<and> truthy u \<and> truthy i \<and> truthy r \<longrightarrow>
        (let store' = snd (api_add_rating data now w store)
         in length (rows_for u i (rows_of store')) = 1
            \<and> list_all (\<lambda>row. rating row = r \<and> timestamp row = VFloat now)
                 (rows_for u i (rows_of store'))
            \<and> (rows_for u i (rows_of store) \<noteq> [] \<longrightarrow>
                 length (rows_of store') = length (rows_of store))))
   \<and> (\<forall>u i. length (rows_for u i (drop_duplicates_last df)) \<le> 1)"
proof (intro conjI impI)
  assume "\<forall>u i. length (rows_for u i (rows_of store)) \<le> 1"
  then show "\<forall>u i. length (rows_for u i (rows_of (add_ratings reqs store))) \<le> 1"
    by (rule add_ratings_one_per_key)
next
  assume a: "(\<forall>u i. length (rows_for u i (rows_of store)) \<le> 1)
        \<and> dict_get data ''user_id'' = u \<and> dict_get data ''item_id'' = i
        \<and> dict_get data ''rating'' = r \<and> truthy u \<and> truthy i \<and> truthy r"
  then have inv: "\<forall>u i. length (rows_for u i (rows_of store)) \<le> 1" by blast
  have "rows_of (snd (api_add_rating data now w store)) = upsert u i r now (rows_of store)"
    using a by (simp add: rows_of_api_add_rating)
  then show "let store' = snd (api_add_rating data now w store)
         in length (rows_for u i (rows_of store')) = 1
            \<and> list_all (\<lambda>row. rating row = r \<and> timestamp row = VFloat now)
                 (rows_for u i (rows_of store'))
            \<and> (rows_for u i (rows_of store) \<noteq> [] \<longrightarrow>
                 length (rows_of store') = length (rows_of store))"
    using rows_for_after_upsert[OF inv, of u i r now] by (simp add: Let_def)
next
  show "\<forall>u i. length (rows_for u i (drop_duplicates_last df)) \<le> 1"
    by (intro allI) (rule rows_for_drop_duplicates_last)
qed

theorem rating_store_one_per_key_witness:
  "rows_of (add_ratings
      [([''user_id'' \<mapsto> VInt 1, ''item_id'' \<mapsto> VInt 10, ''rating'' \<mapsto> VInt 5], 100, None),
       ([''user_id'' \<mapsto> VInt 1, ''item_id'' \<mapsto> VInt 10, ''rating'' \<mapsto> VInt 3], 200, None)] None)
     = [\<lparr>user_id = VInt 1, item_id = VInt 10, rating = VInt 3, timestamp = VFloat 200\<rparr>]
   \<and> length (rows_for (VInt 1) (VInt 10) (rows_of (add_ratings
      [([''user_id'' \<mapsto> VInt 1, ''item_id'' \<mapsto> VInt 10, ''rating'' \<mapsto> VInt 5], 100, None),
       ([''user_id'' \<mapsto> VInt 1, ''item_id'' \<mapsto> VInt 10, ''rating'' \<mapsto> VInt 3], 200, None)] None))) \<le> 1
   \<and> length (rows_for (VInt 1) (VInt 10) (rows_of None)) \<le> 1"
  using rating_store_one_per_key [of None
      "[([''user_id'' \<mapsto> VInt 1, ''item_id'' \<mapsto> VInt 10, ''rating'' \<mapsto> VInt 5], 100, None),
        ([''user_id'' \<mapsto> VInt 1, ''item_id'' \<mapsto> VInt 10, ''rating'' \<mapsto> VInt 3], 200, None)]"]
  by (simp add: api_add_rating_def dict_get_def upsert_def row_mask_def rows_of_def rows_for_def)

text \<open>
  Claim C9. A rating request whose \<^verbatim>\<open>user_id\<close>, \<^verbatim>\<open>item_id\<close> or \<^verbatim>\<open>rating\<close>
  field is present with a falsy value (the number 0, \<^verbatim>\<open>false\<close>, the empty string,
  \<^verbatim>\<open>null\<close>) is answered with status 400 like a request without the field, and the
  store is unchanged.
\<close>

theorem api_add_rating_rejects_falsy:
  assumes "k = ''user_id'' \<or> k = ''item_id'' \<or> k = ''rating''"
    and "data k = Some v" and "\<not> truthy v"
  shows "api_add_rating data now w store = (Err 400 MissingParameters, store)"
  using assms by (auto simp: api_add_rating_def dict_get_def Let_def)

theorem api_add_rating_rejects_falsy_witness:
  "api_add_rating [''user_id'' \<mapsto> VInt 0, ''item_id'' \<mapsto> VInt 10, ''rating'' \<mapsto> VInt 5] 100 None
      (Some [\<lparr>user_id = VInt 0, item_id = VInt 10, rating = VInt 2, timestamp = VFloat 1\<rparr>])
     = (Err 400 MissingParameters,
        Some [\<lparr>user_id = VInt 0, item_id = VInt 10, rating = VInt 2, timestamp = VFloat 1\<rparr>])"
  using api_add_rating_rejects_falsy [of "''user_id''"
      "[''user_id'' \<mapsto> VInt 0, ''item_id'' \<mapsto> VInt 10, ''rating'' \<mapsto> VInt 5]" "VInt 0" 100 None
      "Some [\<lparr>user_id = VInt 0, item_id = VInt 10, rating = VInt 2, timestamp = VFloat 1\<rparr>]"]
  by simp

subsection \<open>Conversion of the MovieLens ratings\<close>



lemma map_filter_pair_None: "List.map_filter (\<lambda>(r, t). map_option (g r) t) [(r, None)] = []"
  by simp
















subsection \<open>The item loop\<close>

lemma new_item_id [simp]: "cat_item_id (new_item t g i) = i"
  by (simp add: new_item_def Let_def)

lemma apply_details_id: "apply_details d it = Inr it' \<Longrightarrow> cat_item_id it' = cat_item_id it"
  by (auto simp: apply_details_def Let_def split: sum.splits)

lemma enrich_with_tmdb_id:
  "enrich_with_tmdb k f it t = Inr it' \<Longrightarrow> cat_item_id it' = cat_item_id it"
  by (auto simp: enrich_with_tmdb_def apply_details_id split: option.splits if_splits)

lemma create_item_skip_iff:
  "(create_item_from_movielens m links ids = Inr None) =
     (case lookup_tmdb links (m_movieId m) of None \<Rightarrow> True | Some t \<Rightarrow> t \<in> ids)"
  by (simp add: create_item_from_movielens_def split: option.splits)

lemma create_item_Some:
  assumes "create_item_from_movielens m links ids = Inr (Some it)"
  shows "lookup_tmdb links (m_movieId m) = Some (cat_item_id it)" and "cat_item_id it \<notin> ids"
proof -
  obtain t where t: "lookup_tmdb links (m_movieId m) = Some t"
    using assms by (cases "lookup_tmdb links (m_movieId m)") (simp_all add: create_item_from_movielens_def)
  have nin: "t \<notin> ids"
    using assms t by (cases "t \<in> ids") (simp_all add: create_item_from_movielens_def)
  obtain ti where ti: "m_title m = Some ti"
    using assms t nin by (cases "m_title m") (simp_all add: create_item_from_movielens_def)
  with assms t nin have "it = new_item ti (m_genres m) t"
    by (simp add: create_item_from_movielens_def)
  then have "cat_item_id it = t" by simp
  with t nin show "lookup_tmdb links (m_movieId m) = Some (cat_item_id it)"
    and "cat_item_id it \<notin> ids" by simp_all
qed

text \<open>One step of the loop that completes, in the three ways it can.\<close>

lemma loop_Cons_Inr:
  assumes "new_items_loop k f e links (m # ms) ids = Inr items"
  shows "(create_item_from_movielens m links ids = Inr None
            \<and> new_items_loop k f e links ms ids = Inr items)
         \<or> (\<exists>it it' rest.
               create_item_from_movielens m links ids = Inr (Some it)
               \<and> cat_item_id it' = cat_item_id it
               \<and> new_items_loop k f e links ms (insert (cat_item_id it) ids) = Inr rest
               \<and> items = it' # rest)"
proof (cases "create_item_from_movielens m links ids")
  case (Inl x)
  with assms show ?thesis by simp
next
  case (Inr o1)
  show ?thesis
  proof (cases o1)
    case None
    with Inr assms show ?thesis by simp
  next
    case (Some it)
    let ?en = "if e then enrich_with_tmdb k f it (cat_item_id it) else Inr it"
    obtain it' where en: "?en = Inr it'"
      using assms Inr Some by (cases ?en) simp_all
    have id: "cat_item_id it' = cat_item_id it"
      using en enrich_with_tmdb_id by (cases e) auto
    obtain rest where rest: "new_items_loop k f e links ms (insert (cat_item_id it') ids) = Inr rest"
      using assms Inr Some en
      by (cases "new_items_loop k f e links ms (insert (cat_item_id it') ids)") simp_all
    have "items = it' # rest" using assms Inr Some en rest by simp
    with Inr Some id rest show ?thesis by auto
  qed
qed

lemma loop_ids_fresh:
  "new_items_loop k f e links ms ids = Inr items \<Longrightarrow> it \<in> set items
     \<Longrightarrow> cat_item_id it \<notin> ids"
proof (induction ms arbitrary: ids items)
  case Nil
  then show ?case by simp
next
  case (Cons m ms)
  from loop_Cons_Inr[OF Cons.prems(1)] show ?case
  proof (elim disjE conjE exE)
    assume "new_items_loop k f e links ms ids = Inr items"
    from Cons.IH[OF this Cons.prems(2)] show ?thesis .
  next
    fix a a' rest
    assume c: "create_item_from_movielens m links ids = Inr (Some a)"
      and id: "cat_item_id a' = cat_item_id a"
      and r: "new_items_loop k f e links ms (insert (cat_item_id a) ids) = Inr rest"
      and i: "items = a' # rest"
    from Cons.prems(2) i have "it = a' \<or> it \<in> set rest" by simp
    then show ?thesis
    proof
      assume "it = a'"
      with id create_item_Some(2)[OF c] show ?thesis by simp
    next
      assume "it \<in> set rest"
      from Cons.IH[OF r this] show ?thesis by simp
    qed
  qed
qed

lemma loop_ids_distinct:
  "new_items_loop k f e links ms ids = Inr items \<Longrightarrow> distinct (map cat_item_id items)"
proof (induction ms arbitrary: ids items)
  case Nil
  then show ?case by simp
next
  case (Cons m ms)
  from loop_Cons_Inr[OF Cons.prems] show ?case
  proof (elim disjE conjE exE)
    assume "new_items_loop k f e links ms ids = Inr items"
    from Cons.IH[OF this] show ?thesis .
  next
    fix a a' rest
    assume id: "cat_item_id a' = cat_item_id a"
      and r: "new_items_loop k f e links ms (insert (cat_item_id a) ids) = Inr rest"
      and i: "items = a' # rest"
    have "cat_item_id a \<notin> cat_item_id ` set rest"
      using loop_ids_fresh[OF r] by fastforce
    with Cons.IH[OF r] id i show ?thesis by simp
  qed
qed

lemma loop_covers:
  assumes "new_items_loop k f e links ms ids = Inr items"
    and "m \<in> set ms" and "lookup_tmdb links (m_movieId m) = Some t"
  shows "t \<in> ids \<union> cat_item_id ` set items"
  using assms(1,2)
proof (induction ms arbitrary: ids items)
  case Nil
  then show ?case by simp
next
  case (Cons a ms)
  from loop_Cons_Inr[OF Cons.prems(1)] show ?case
  proof (elim disjE conjE exE)
    assume c: "create_item_from_movielens a links ids = Inr None"
      and r: "new_items_loop k f e links ms ids = Inr items"
    show ?thesis
    proof (cases "m = a")
      case True
      with c assms(3) have "t \<in> ids" by (simp add: create_item_skip_iff)
      then show ?thesis by simp
    next
      case False
      with Cons.prems(2) have "m \<in> set ms" by simp
      from Cons.IH[OF r this] show ?thesis .
    qed
  next
    fix b b' rest
    assume c: "create_item_from_movielens a links ids = Inr (Some b)"
      and id: "cat_item_id b' = cat_item_id b"
      and r: "new_items_loop k f e links ms (insert (cat_item_id b) ids) = Inr rest"
      and i: "items = b' # rest"
    show ?thesis
    proof (cases "m = a")
      case True
      with create_item_Some(1)[OF c] assms(3) have "t = cat_item_id b" by simp
      with id i show ?thesis by simp
    next
      case False
      with Cons.prems(2) have "m \<in> set ms" by simp
      from Cons.IH[OF r this] id i show ?thesis by auto
    qed
  qed
qed

lemma loop_Nil_if_known:
  assumes "\<forall>m\<in>set ms. \<forall>t. lookup_tmdb links (m_movieId m) = Some t \<longrightarrow> t \<in> ids"
  shows "new_items_loop k f e links ms ids = Inr []"
  using assms
proof (induction ms)
  case Nil
  show ?case by simp
next
  case (Cons a ms)
  then have "create_item_from_movielens a links ids = Inr None"
    by (auto simp: create_item_skip_iff split: option.splits)
  with Cons show ?case by simp
qed

lemma loop_skip_Cons:
  assumes "create_item_from_movielens m links ids = Inr None"
  shows "new_items_loop k f e links (m # ms) ids = new_items_loop k f e links ms ids"
  using assms by simp

lemma normalize_ids [simp]: "map cat_item_id (normalize xs) = map cat_item_id xs"
  by (simp add: normalize_def Let_def comp_def)

lemma normalize_Nil_iff [simp]: "(normalize xs = []) = (xs = [])"
  by (simp add: normalize_def Let_def)

subsection \<open>Catalog integration\<close>

lemma run_completes:
  assumes "integrate_movielens k f e mm ms rs links existing er = Inr run"
  shows "\<exists>new. new_items_loop k f e links (movies_to_process mm ms)
                  (set (map cat_item_id existing)) = Inr new
               \<and> map cat_item_id (items_returned run)
                    = map cat_item_id existing @ map cat_item_id new"
  using assms
  by (auto simp: integrate_movielens_def Let_def split: sum.splits)

lemma rerun_no_new_items:
  assumes "integrate_movielens k f e mm ms rs links existing er = Inr run"
  shows "new_items_loop k' f' e' links (movies_to_process mm ms)
           (set (map cat_item_id (items_returned run))) = Inr []"
proof (rule loop_Nil_if_known, intro ballI allI impI)
  fix m t
  assume m: "m \<in> set (movies_to_process mm ms)"
    and t: "lookup_tmdb links (m_movieId m) = Some t"
  from run_completes[OF assms] obtain new
    where new: "new_items_loop k f e links (movies_to_process mm ms)
                  (set (map cat_item_id existing)) = Inr new"
      and ids: "map cat_item_id (items_returned run)
                  = map cat_item_id existing @ map cat_item_id new" by blast
  have "t \<in> set (map cat_item_id existing) \<union> cat_item_id ` set new"
    by (rule loop_covers[OF new m t])
  then show "t \<in> set (map cat_item_id (items_returned run))"
    unfolding ids by auto
qed

lemma rerun_items:
  assumes "integrate_movielens k f e mm ms rs links existing er = Inr first_run"
  shows "\<exists>second_run. integrate_movielens k' f' e' mm ms rs' links (items_returned first_run) er' = Inr second_run
           \<and> items_returned second_run = items_returned first_run \<and> items_saved second_run = None"
  using rerun_no_new_items[OF assms, of k' f' e']
  by (simp add: integrate_movielens_def[of k' f' e'] Let_def)

lemma get_details_failed:
  assumes "\<forall>d. fetch t \<noteq> Reply 200 (Json d)"
  shows "get_tmdb_movie_details k fetch t = None"
proof (cases "fetch t")
  case (RequestRaised e)
  then show ?thesis by (simp add: get_tmdb_movie_details_def)
next
  case (Reply code body)
  with assms show ?thesis
    by (cases body) (auto simp: get_tmdb_movie_details_def)
qed

lemma enrich_failed:
  assumes "\<forall>d. fetch t \<noteq> Reply 200 (Json d)"
  shows "enrich_with_tmdb k fetch it t = Inr it"
  using get_details_failed[of fetch t k] assms by (simp add: enrich_with_tmdb_def)

lemma loop_skip_unmapped:
  assumes "lookup_tmdb links (m_movieId m) = None"
  shows "new_items_loop k f e links (m # post) ids = new_items_loop k f e links post ids"
  using assms by (simp add: create_item_from_movielens_def)

lemma max_list_ge: "x \<in> set xs \<Longrightarrow> \<exists>m. max_list xs = Some m \<and> x \<le> m"
proof (induction xs)
  case Nil
  then show ?case by simp
next
  case (Cons a xs)
  show ?case
  proof (cases "max_list xs")
    case None
    then have "xs = []" by (cases xs) (auto split: option.splits)
    with Cons.prems None show ?thesis by simp
  next
    case (Some m)
    show ?thesis
    proof (cases "x = a")
      case True
      with Some show ?thesis by simp
    next
      case False
      with Cons.prems have "x \<in> set xs" by simp
      from Cons.IH[OF this] Some have "x \<le> m" by simp
      with Some show ?thesis by simp
    qed
  qed
qed

lemma col_max_ge:
  assumes "Some x \<in> set col"
  shows "\<exists>m. col_max col = Some m \<and> x \<le> m"
proof -
  have "x \<in> set (List.map_filter (\<lambda>v. v) col)"
    using assms by (force simp: map_filter_def)
  then show ?thesis unfolding col_max_def by (rule max_list_ge)
qed

lemma normalize_raw [simp]:
  "map popularity (normalize xs) = map popularity xs"
  "map vote_count (normalize xs) = map vote_count xs"
  "map vote_average (normalize xs) = map vote_average xs"
  by (simp_all add: normalize_def Let_def comp_def)

lemma normalize_member:
  assumes "it \<in> set (normalize xs)"
  shows "vote_average_norm it = div_cell (vote_average it) 10"
    and "popularity it \<in> set (map popularity xs)"
    and "vote_count it \<in> set (map vote_count xs)"
  using assms
  by (auto simp: normalize_def Let_def)

lemma normalize_scaled:
  assumes "it \<in> set (normalize xs)"
  shows "col_max (map popularity xs) = Some m \<Longrightarrow> 0 < m
           \<Longrightarrow> popularity_norm it = div_cell (popularity it) m"
    and "col_max (map vote_count xs) = Some m' \<Longrightarrow> 0 < m'
           \<Longrightarrow> vote_count_norm it = div_cell (vote_count it) m'"
  using assms
  by (auto simp: normalize_def Let_def norm_by_max_def split: option.splits)

lemma unit_fraction: "0 \<le> x \<Longrightarrow> x \<le> m \<Longrightarrow> 0 < m \<Longrightarrow> 0 \<le> x / m \<and> x / m \<le> (1::real)"
  by (simp add: divide_le_eq)


lemma saved_is_normalized:
  assumes "integrate_movielens k f e mm movies rs links existing er = Inr run"
    and "items_saved run = Some cat"
  shows "\<exists>xs. cat = normalize xs"
  using assms
  by (auto simp: integrate_movielens_def Let_def split: sum.splits if_splits)

text \<open>
  Claim C2. Ingesting a catalog batch again is idempotent. Let \<open>first_run\<close> be an integration
  run that completed, and \<open>new\<close> the items it created. The merged catalog is the existing
  records followed by the new ones; no new item has an identifier of the existing
  catalog and no two new items share one, so a catalog without duplicates stays without
  duplicates; a second run of the same movie and link tables on the catalog that
  \<open>first_run\<close> returned (whatever the network, the flags and the ratings of the second run)
  completes, creates nothing, returns the same catalog and writes no item file; and a
  movie whose TMDb identifier is already known never yields an item.
\<close>

theorem catalog_ingest_idempotent:
  assumes "integrate_movielens k f e mm movies rs links existing er = Inr first_run"
  shows "\<exists>new. new_items_loop k f e links (movies_to_process mm movies)
                  (set (map cat_item_id existing)) = Inr new
     \<and> map cat_item_id (items_returned first_run) = map cat_item_id existing @ map cat_item_id new
     \<and> list_all (\<lambda>it. cat_item_id it \<notin> set (map cat_item_id existing)) new
     \<and> distinct (map cat_item_id new)
     \<and> (distinct (map cat_item_id existing) \<longrightarrow> distinct (map cat_item_id (items_returned first_run)))
     \<and> (\<exists>second_run. integrate_movielens k' f' e' mm movies rs' links (items_returned first_run) er'
                    = Inr second_run
            \<and> items_returned second_run = items_returned first_run
            \<and> items_saved second_run = None)
     \<and> (\<forall>m ids t. lookup_tmdb links (m_movieId m) = Some t \<and> t \<in> ids
           \<longrightarrow> create_item_from_movielens m links ids = Inr None)"
proof -
  from run_completes[OF assms] obtain new
    where new: "new_items_loop k f e links (movies_to_process mm movies)
                  (set (map cat_item_id existing)) = Inr new"
      and ids: "map cat_item_id (items_returned first_run)
                  = map cat_item_id existing @ map cat_item_id new" by blast
  have fresh: "list_all (\<lambda>it. cat_item_id it \<notin> set (map cat_item_id existing)) new"
    unfolding list_all_iff using loop_ids_fresh[OF new] by blast
  have dist: "distinct (map cat_item_id new)"
    by (rule loop_ids_distinct[OF new])
  have keep: "distinct (map cat_item_id existing) \<longrightarrow> distinct (map cat_item_id (items_returned first_run))"
  proof
    assume d: "distinct (map cat_item_id existing)"
    have "set (map cat_item_id existing) \<inter> set (map cat_item_id new) = {}"
    proof (rule ccontr)
      assume "set (map cat_item_id existing) \<inter> set (map cat_item_id new) \<noteq> {}"
      then obtain x where x1: "x \<in> set (map cat_item_id existing)"
        and x2: "x \<in> set (map cat_item_id new)" by blast
      from x2 obtain it where it: "it \<in> set new" "x = cat_item_id it" by auto
      from loop_ids_fresh[OF new it(1)]
      have "cat_item_id it \<notin> set (map cat_item_id existing)" .
      with x1 it(2) show False by simp
    qed
    with d dist show "distinct (map cat_item_id (items_returned first_run))"
      unfolding ids distinct_append by blast
  qed
  have again: "\<exists>second_run. integrate_movielens k' f' e' mm movies rs' links (items_returned first_run) er'
                    = Inr second_run
            \<and> items_returned second_run = items_returned first_run
            \<and> items_saved second_run = None"
    by (rule rerun_items[OF assms])
  have skip: "\<forall>m ids t. lookup_tmdb links (m_movieId m) = Some t \<and> t \<in> ids
           \<longrightarrow> create_item_from_movielens m links ids = Inr None"
    by (simp add: create_item_skip_iff)
  from new ids fresh dist keep again skip show ?thesis by blast
qed

theorem catalog_ingest_idempotent_witness:
  "map_sum id (\<lambda>run. map cat_item_id (items_returned run))
     (integrate_movielens False (\<lambda>_. RequestRaised []) False None
        [\<lparr>m_movieId = 1, m_title = Some ''A'', m_genres = None\<rparr>,
         \<lparr>m_movieId = 2, m_title = Some ''B'', m_genres = None\<rparr>] []
        [\<lparr>l_movieId = 1, l_tmdbId = Some 862\<rparr>, \<lparr>l_movieId = 2, l_tmdbId = Some 862\<rparr>] [] [])
     = Inr [862]
   \<and> map_sum id items_saved
       (integrate_movielens False (\<lambda>_. RequestRaised []) False None
          [\<lparr>m_movieId = 1, m_title = Some ''A'', m_genres = None\<rparr>,
           \<lparr>m_movieId = 2, m_title = Some ''B'', m_genres = None\<rparr>] []
          [\<lparr>l_movieId = 1, l_tmdbId = Some 862\<rparr>, \<lparr>l_movieId = 2, l_tmdbId = Some 862\<rparr>]
          (normalize [new_item ''A'' None 862]) [])
     = Inr None"
  using catalog_ingest_idempotent [where k = False and f = "\<lambda>_. RequestRaised []" and e = False
      and mm = None
      and movies = "[\<lparr>m_movieId = 1, m_title = Some ''A'', m_genres = None\<rparr>,
                     \<lparr>m_movieId = 2, m_title = Some ''B'', m_genres = None\<rparr>]"
      and rs = "[]"
      and links = "[\<lparr>l_movieId = 1, l_tmdbId = Some 862\<rparr>, \<lparr>l_movieId = 2, l_tmdbId = Some 862\<rparr>]"
      and existing = "[]" and er = "[]"
      and first_run = "\<lparr>items_saved = Some (normalize [new_item ''A'' None 862]),
                    items_returned = normalize [new_item ''A'' None 862],
                    ratings_returned = []\<rparr>"
      and k' = False and f' = "\<lambda>_. RequestRaised []" and e' = False and rs' = "[]" and er' = "[]"]
  by (simp add: integrate_movielens_def movies_to_process_def create_item_from_movielens_def
        lookup_tmdb_def Let_def convert_movielens_ratings_def merge_left_def map_filter_def)

text \<open>
  Claim C5. The script tolerates the two bad records it expects: a movie row without a
  TMDb identifier yields no item and the loop goes on, and a detail request that raises
  or answers with a status other than 200 leaves the item as it was. It does not
  tolerate every bad record, as the claim requires: a movie row with an empty title
  whose TMDb identifier is new raises \<^verbatim>\<open>TypeError\<close> at the test \<^verbatim>\<open>'(' in title\<close>,
  which stands one line before the \<^verbatim>\<open>try\<close> that guards the parsing of the year (the
  genres of the same row are guarded by \<^verbatim>\<open>pd.notna\<close>). The exception leaves the loop
  and the run: the batch that completes without the row is aborted with it, and nothing
  is written. A detail response whose \<^verbatim>\<open>genres\<close> is \<^verbatim>\<open>null\<close> does the same.
\<close>

theorem nan_title_aborts_batch:
  "new_items_loop False (\<lambda>_. RequestRaised []) False
      [\<lparr>l_movieId = 1, l_tmdbId = Some 862\<rparr>, \<lparr>l_movieId = 2, l_tmdbId = Some 863\<rparr>]
      [\<lparr>m_movieId = 2, m_title = Some ''B'', m_genres = None\<rparr>] {}
     = Inr [new_item ''B'' None 863]
   \<and> new_items_loop False (\<lambda>_. RequestRaised []) False
      [\<lparr>l_movieId = 1, l_tmdbId = Some 862\<rparr>, \<lparr>l_movieId = 2, l_tmdbId = Some 863\<rparr>]
      [\<lparr>m_movieId = 1, m_title = None, m_genres = Some ''Comedy''\<rparr>,
       \<lparr>m_movieId = 2, m_title = Some ''B'', m_genres = None\<rparr>] {}
     = Inl TypeError
   \<and> integrate_movielens False (\<lambda>_. RequestRaised []) False None
      [\<lparr>m_movieId = 1, m_title = None, m_genres = Some ''Comedy''\<rparr>,
       \<lparr>m_movieId = 2, m_title = Some ''B'', m_genres = None\<rparr>] []
      [\<lparr>l_movieId = 1, l_tmdbId = Some 862\<rparr>, \<lparr>l_movieId = 2, l_tmdbId = Some 863\<rparr>] [] []
     = Inl TypeError
   \<and> new_items_loop True
      (\<lambda>_. Reply 200 (Json \<lparr>d_overview = Absent, d_poster_path = Absent,
               d_release_date = Absent, d_vote_average = Absent, d_vote_count = Absent,
               d_popularity = Absent, d_original_language = Absent, d_genres = Null,
               d_other_keys = True\<rparr>)) True
      [\<lparr>l_movieId = 1, l_tmdbId = Some 862\<rparr>, \<lparr>l_movieId = 2, l_tmdbId = Some 863\<rparr>]
      [\<lparr>m_movieId = 1, m_title = Some ''A'', m_genres = None\<rparr>,
       \<lparr>m_movieId = 2, m_title = Some ''B'', m_genres = None\<rparr>] {}
     = Inl TypeError"
  by (simp add: integrate_movielens_def movies_to_process_def create_item_from_movielens_def
        lookup_tmdb_def enrich_with_tmdb_def get_tmdb_movie_details_def details_nonempty_def
        apply_details_def joined_genres_def)

text \<open>
  Claim C4. When an integration run completes and writes the catalog, every item \<open>it\<close> of the
  written catalog \<open>cat\<close> has \<open>popularity_norm\<close> equal to its popularity divided by the
  maximum popularity of the catalog when that maximum is positive, likewise
  \<open>vote_count_norm\<close>, and \<open>vote_average_norm\<close> equal to its vote average divided by 10;
  a raw value that is not negative (and, for the vote average, at most 10) has its
  normalised value in the unit interval. Numbers are real numbers here.
\<close>

theorem saved_catalog_normalized:
  assumes "integrate_movielens k f e mm movies rs links existing er = Inr run"
    and "items_saved run = Some cat"
    and "it \<in> set cat"
  shows "(\<forall>m. col_max (map popularity cat) = Some m \<and> 0 < m \<longrightarrow>
            popularity_norm it = map_option (\<lambda>x. x / m) (popularity it))
     \<and> (\<forall>m. col_max (map vote_count cat) = Some m \<and> 0 < m \<longrightarrow>
            vote_count_norm it = map_option (\<lambda>x. x / m) (vote_count it))
     \<and> vote_average_norm it = map_option (\<lambda>x. x / 10) (vote_average it)
     \<and> (\<forall>m x. col_max (map popularity cat) = Some m \<and> 0 < m
               \<and> popularity it = Some x \<and> 0 \<le> x \<longrightarrow>
            x \<le> m \<and> (\<exists>y. popularity_norm it = Some y \<and> 0 \<le> y \<and> y \<le> 1))
     \<and> (\<forall>m x. col_max (map vote_count cat) = Some m \<and> 0 < m
               \<and> vote_count it = Some x \<and> 0 \<le> x \<longrightarrow>
            x \<le> m \<and> (\<exists>y. vote_count_norm it = Some y \<and> 0 \<le> y \<and> y \<le> 1))
     \<and> (\<forall>x. vote_average it = Some x \<and> 0 \<le> x \<and> x \<le> 10 \<longrightarrow>
            (\<exists>y. vote_average_norm it = Some y \<and> 0 \<le> y \<and> y \<le> 1))"
proof -
  obtain xs where cat: "cat = normalize xs"
    using saved_is_normalized[OF assms(1,2)] by blast
  have mem: "it \<in> set (normalize xs)" using assms(3) cat by simp
  have pop: "col_max (map popularity cat) = col_max (map popularity xs)"
    and cnt: "col_max (map vote_count cat) = col_max (map vote_count xs)"
    by (simp_all add: cat)
  have p1: "popularity_norm it = map_option (\<lambda>x. x / m) (popularity it)"
    if "col_max (map popularity cat) = Some m" "0 < m" for m
    using normalize_scaled(1)[OF mem, of m] that by (simp add: pop div_cell_def)
  have c1: "vote_count_norm it = map_option (\<lambda>x. x / m) (vote_count it)"
    if "col_max (map vote_count cat) = Some m" "0 < m" for m
    using normalize_scaled(2)[OF mem, of m] that by (simp add: cnt div_cell_def)
  have a1: "vote_average_norm it = map_option (\<lambda>x. x / 10) (vote_average it)"
    using normalize_member(1)[OF mem] by (simp add: div_cell_def)
  have p2: "x \<le> m \<and> (\<exists>y. popularity_norm it = Some y \<and> 0 \<le> y \<and> y \<le> 1)"
    if h: "col_max (map popularity cat) = Some m" "0 < m" "popularity it = Some x" "0 \<le> x" for m x
  proof -
    have "Some x \<in> set (map popularity xs)"
      using normalize_member(2)[OF mem] h(3) by simp
    from col_max_ge[OF this] h(1) have le: "x \<le> m" by (simp add: pop)
    have "popularity_norm it = Some (x / m)" using p1[OF h(1,2)] h(3) by simp
    with le unit_fraction[OF h(4) le h(2)] show ?thesis by simp
  qed
  have c2: "x \<le> m \<and> (\<exists>y. vote_count_norm it = Some y \<and> 0 \<le> y \<and> y \<le> 1)"
    if h: "col_max (map vote_count cat) = Some m" "0 < m" "vote_count it = Some x" "0 \<le> x" for m x
  proof -
    have "Some x \<in> set (map vote_count xs)"
      using normalize_member(3)[OF mem] h(3) by simp
    from col_max_ge[OF this] h(1) have le: "x \<le> m" by (simp add: cnt)
    have "vote_count_norm it = Some (x / m)" using c1[OF h(1,2)] h(3) by simp
    with le unit_fraction[OF h(4) le h(2)] show ?thesis by simp
  qed
  have a2: "\<exists>y. vote_average_norm it = Some y \<and> 0 \<le> y \<and> y \<le> 1"
    if h: "vote_average it = Some x" "0 \<le> x" "x \<le> 10" for x
  proof -
    have "vote_average_norm it = Some (x / 10)" using a1 h(1) by simp
    moreover have "0 \<le> x / 10 \<and> x / 10 \<le> 1" using h(2,3) by simp
    ultimately show ?thesis by blast
  qed
  from p1 c1 a1 p2 c2 a2 show ?thesis by blast
qed


theorem saved_catalog_normalized_witness:
  "map_sum id (\<lambda>run. map_option (map popularity_norm) (items_saved run))
     (integrate_movielens True
        (\<lambda>_. Reply 200 (Json \<lparr>d_overview = Absent, d_poster_path = Absent, d_release_date = Absent,
               d_vote_average = Present 7, d_vote_count = Present 50, d_popularity = Present 8,
               d_original_language = Absent, d_genres = Absent, d_other_keys = False\<rparr>))
        True None [\<lparr>m_movieId = 1, m_title = Some ''A'', m_genres = None\<rparr>] []
        [\<lparr>l_movieId = 1, l_tmdbId = Some 862\<rparr>]
        [\<lparr>cat_item_id = 5, title = ''B'', overview = None, poster_path = None, release_date = None,
          vote_average = Some 6, vote_count = Some 20, popularity = Some 4,
          original_language = Some ''en'', content_type = ''movie'', tmdb_details = ''{}'',
          genres = [], release_year = 0, popularity_norm = None, vote_average_norm = None,
          vote_count_norm = None, features_text = ''B''\<rparr>] [])
    = Inr (Some [Some (1 / 2), Some 1])"
  using saved_catalog_normalized [where k = True
      and f = "\<lambda>_. Reply 200 (Json \<lparr>d_overview = Absent, d_poster_path = Absent, d_release_date = Absent,
               d_vote_average = Present 7, d_vote_count = Present 50, d_popularity = Present 8,
               d_original_language = Absent, d_genres = Absent, d_other_keys = False\<rparr>)"
      and e = True and mm = None
      and movies = "[\<lparr>m_movieId = 1, m_title = Some ''A'', m_genres = None\<rparr>]" and rs = "[]"
      and links = "[\<lparr>l_movieId = 1, l_tmdbId = Some 862\<rparr>]"
      and existing = "[\<lparr>cat_item_id = 5, title = ''B'', overview = None, poster_path = None, release_date = None,
          vote_average = Some 6, vote_count = Some 20, popularity = Some 4,
          original_language = Some ''en'', content_type = ''movie'', tmdb_details = ''{}'',
          genres = [], release_year = 0, popularity_norm = None, vote_average_norm = None,
          vote_count_norm = None, features_text = ''B''\<rparr>]" and er = "[]"
      and run = "projr (integrate_movielens True
        (\<lambda>_. Reply 200 (Json \<lparr>d_overview = Absent, d_poster_path = Absent, d_release_date = Absent,
               d_vote_average = Present 7, d_vote_count = Present 50, d_popularity = Present 8,
               d_original_language = Absent, d_genres = Absent, d_other_keys = False\<rparr>))
        True None [\<lparr>m_movieId = 1, m_title = Some ''A'', m_genres = None\<rparr>] []
        [\<lparr>l_movieId = 1, l_tmdbId = Some 862\<rparr>]
        [\<lparr>cat_item_id = 5, title = ''B'', overview = None, poster_path = None, release_date = None,
          vote_average = Some 6, vote_count = Some 20, popularity = Some 4,
          original_language = Some ''en'', content_type = ''movie'', tmdb_details = ''{}'',
          genres = [], release_year = 0, popularity_norm = None, vote_average_norm = None,
          vote_count_norm = None, features_text = ''B''\<rparr>] [])"
      and cat = "the (items_saved (projr (integrate_movielens True
        (\<lambda>_. Reply 200 (Json \<lparr>d_overview = Absent, d_poster_path = Absent, d_release_date = Absent,
               d_vote_average = Present 7, d_vote_count = Present 50, d_popularity = Present 8,
               d_original_language = Absent, d_genres = Absent, d_other_keys = False\<rparr>))
        True None [\<lparr>m_movieId = 1, m_title = Some ''A'', m_genres = None\<rparr>] []
        [\<lparr>l_movieId = 1, l_tmdbId = Some 862\<rparr>]
        [\<lparr>cat_item_id = 5, title = ''B'', overview = None, poster_path = None, release_date = None,
          vote_average = Some 6, vote_count = Some 20, popularity = Some 4,
          original_language = Some ''en'', content_type = ''movie'', tmdb_details = ''{}'',
          genres = [], release_year = 0, popularity_norm = None, vote_average_norm = None,
          vote_count_norm = None, features_text = ''B''\<rparr>] [])))"
      and it = "hd (the (items_saved (projr (integrate_movielens True
        (\<lambda>_. Reply 200 (Json \<lparr>d_overview = Absent, d_poster_path = Absent, d_release_date = Absent,
               d_vote_average = Present 7, d_vote_count = Present 50, d_popularity = Present 8,
               d_original_language = Absent, d_genres = Absent, d_other_keys = False\<rparr>))
        True None [\<lparr>m_movieId = 1, m_title = Some ''A'', m_genres = None\<rparr>] []
        [\<lparr>l_movieId = 1, l_tmdbId = Some 862\<rparr>]
        [\<lparr>cat_item_id = 5, title = ''B'', overview = None, poster_path = None, release_date = None,
          vote_average = Some 6, vote_count = Some 20, popularity = Some 4,
          original_language = Some ''en'', content_type = ''movie'', tmdb_details = ''{}'',
          genres = [], release_year = 0, popularity_norm = None, vote_average_norm = None,
          vote_count_norm = None, features_text = ''B''\<rparr>] []))))"]
  by (simp add: integrate_movielens_def movies_to_process_def create_item_from_movielens_def
        new_item_def lookup_tmdb_def enrich_with_tmdb_def get_tmdb_movie_details_def
        details_nonempty_def apply_details_def joined_genres_def year_of_details_def fmt_def
        get_or_def normalize_def col_max_def norm_by_max_def div_cell_def
        year_of_title_def year_or_zero_def Let_def map_filter_def
        convert_movielens_ratings_def merge_left_def)

subsection \<open>The query surface\<close>

text \<open>
  Claim C1, as amended. The recommendation endpoint answers with the explicit error
  "model not loaded" (status 500) exactly when the hybrid model is not loaded and the
  request does not name a loaded collaborative or content-based model. When the hybrid
  model is loaded, a request with an unrecognised strategy name, or one naming a
  strategy whose model is absent, is answered by the hybrid model (with the response of
  the hybrid model, or its exception as a status 500), under the strategy name of the
  request.
\<close>

theorem api_recommendations_fallback:
  "(api_recommendations cf cb hybrid items_df ratings_df uid limit strategy = Err 500 ModelNotLoaded)
     = (hybrid = None
        \<and> \<not> (strategy = ''collaborative'' \<and> cf \<noteq> None)
        \<and> \<not> (strategy = ''content_based'' \<and> cb \<noteq> None))
   \<and> (hybrid = Some h
        \<and> \<not> (strategy = ''collaborative'' \<and> cf \<noteq> None)
        \<and> \<not> (strategy = ''content_based'' \<and> cb \<noteq> None) \<longrightarrow>
        api_recommendations cf cb hybrid items_df ratings_df uid limit strategy =
          (case h uid limit ratings_df of
             Inl e \<Rightarrow> Err 500 (Raised e)
           | Inr recommendations \<Rightarrow>
               Ok \<lparr>body_user_id = uid, body_strategy = strategy,
                   body_recommendations = map (result_of items_df) recommendations,
                   body_count = length recommendations\<rparr>))"
  by (auto simp: api_recommendations_def model_answer_def split: option.splits sum.splits)

theorem api_recommendations_fallback_witness:
  "api_recommendations None None None None None 1 10 ''collaborative'' = Err 500 ModelNotLoaded
   \<and> api_recommendations None None (Some (\<lambda>u n r. Inr [(7, 1)])) None None 1 10 ''nearest''
       = Ok \<lparr>body_user_id = 1, body_strategy = ''nearest'',
             body_recommendations =
               [\<lparr>res_item_id = 7, res_score = 1, res_title = [], res_content_type = [],
                 res_poster_path = [], res_overview = []\<rparr>],
             body_count = 1\<rparr>"
  using api_recommendations_fallback [of None None None None None 1 10 "''collaborative''"]
    api_recommendations_fallback [of None None "Some (\<lambda>u n r. Inr [(7, 1)])" None None 1 10
      "''nearest''" "\<lambda>u n r. Inr [(7, 1)]"]
  by (simp add: result_of_def item_info_def strip_def sub_escaped_def)

text \<open>
  The claim as stated fails: with only the hybrid model loaded, the strategy
  \<^verbatim>\<open>collaborative\<close> (model absent) and the unknown strategy \<^verbatim>\<open>nearest\<close> both get
  the hybrid model's recommendation, not an error.
\<close>

theorem api_recommendations_counterexample:
  "api_recommendations None None (Some (\<lambda>u n r. Inr [(7, 1)])) None None 1 10 ''collaborative''
     = Ok \<lparr>body_user_id = 1, body_strategy = ''collaborative'',
           body_recommendations =
             [\<lparr>res_item_id = 7, res_score = 1, res_title = [], res_content_type = [],
               res_poster_path = [], res_overview = []\<rparr>],
           body_count = 1\<rparr>
   \<and> api_recommendations None None (Some (\<lambda>u n r. Inr [(7, 1)])) None None 1 10 ''nearest''
     = Ok \<lparr>body_user_id = 1, body_strategy = ''nearest'',
           body_recommendations =
             [\<lparr>res_item_id = 7, res_score = 1, res_title = [], res_content_type = [],
               res_poster_path = [], res_overview = []\<rparr>],
           body_count = 1\<rparr>"
  by (simp add: api_recommendations_def model_answer_def result_of_def item_info_def
        strip_def sub_escaped_def)

text \<open>
  Claim C6. \<open>get_ml_recommendations\<close> never raises: it returns a list for every user
  id and count. The list is empty when no model is loaded and when the model that is
  asked raises; in particular a user the model does not know, for whom the model raises
  or returns nothing, gets the empty list.
\<close>

theorem get_ml_recommendations_never_raises:
  "(\<exists>r. get_ml_recommendations hybrid cb ratings_df uid n = Inr r)
   \<and> (hybrid = None \<and> cb = None \<longrightarrow>
        get_ml_recommendations hybrid cb ratings_df uid n = Inr [])
   \<and> (hybrid = Some h \<and> (h uid n ratings_df = Inl e \<or> h uid n ratings_df = Inr []) \<longrightarrow>
        get_ml_recommendations hybrid cb ratings_df uid n = Inr [])
   \<and> (hybrid = None \<and> cb = Some c
        \<and> (c uid n ratings_df = Inl e \<or> c uid n ratings_df = Inr []) \<longrightarrow>
        get_ml_recommendations hybrid cb ratings_df uid n = Inr [])"
  by (auto simp: get_ml_recommendations_def split: option.splits sum.splits)

theorem get_ml_recommendations_never_raises_witness:
  "get_ml_recommendations None None None 42 10 = Inr []
   \<and> get_ml_recommendations (Some (\<lambda>u n r. Inl ''unknown user'')) None None 42 10 = Inr []
   \<and> get_ml_recommendations None (Some (\<lambda>u n r. Inl ''unknown user'')) None 42 10 = Inr []"
  using get_ml_recommendations_never_raises [of None None None 42 10]
    get_ml_recommendations_never_raises [of "Some (\<lambda>u n r. Inl ''unknown user'')" None None 42 10
       "\<lambda>u n r. Inl ''unknown user''" "''unknown user''"]
    get_ml_recommendations_never_raises [where hybrid = None
       and cb = "Some (\<lambda>u n r. Inl ''unknown user'')" and ratings_df = None and uid = 42
       and n = 10 and e = "''unknown user''" and c = "\<lambda>u n r. Inl ''unknown user''"]
  by simp

subsection \<open>The content-based model\<close>

lemma similarity_row_props:
  "cat_item_id it \<notin> fst ` set (similarity_row sim K catalog it)"
  "sorted_wrt (\<lambda>a b. snd b \<le> snd a) (similarity_row sim K catalog it)"
  "length (similarity_row sim K catalog it) \<le> K"
proof -
  let ?xs = "map (\<lambda>other. (cat_item_id other, sim it other))
          (filter (\<lambda>other. cat_item_id other \<noteq> cat_item_id it) catalog)"
  have "set (similarity_row sim K catalog it) \<subseteq> set ?xs"
    unfolding similarity_row_def using set_take_subset[of K "sort_key (\<lambda>p. - snd p) ?xs"]
    by simp
  moreover have "cat_item_id it \<notin> fst ` set ?xs" by auto
  ultimately show "cat_item_id it \<notin> fst ` set (similarity_row sim K catalog it)" by blast
  have "sorted (map (\<lambda>p. - snd p) (sort_key (\<lambda>p. - snd p) ?xs))"
    by (rule sorted_sort_key)
  then have "sorted_wrt (\<lambda>a b. snd b \<le> snd a) (sort_key (\<lambda>p. - snd p) ?xs)"
    by (simp add: sorted_map)
  then show "sorted_wrt (\<lambda>a b. snd b \<le> snd a) (similarity_row sim K catalog it)"
    unfolding similarity_row_def by (rule sorted_wrt_take)
  show "length (similarity_row sim K catalog it) \<le> K"
    by (simp add: similarity_row_def)
qed

lemma map_of_index:
  "map_of (map (\<lambda>it. (cat_item_id it, g it)) catalog) i =
     (case filter (\<lambda>it. cat_item_id it = i) catalog of [] \<Rightarrow> None | it # _ \<Rightarrow> Some (g it))"
  by (induction catalog) auto

lemma filter_hd_key:
  assumes "filter (\<lambda>it. f it = i) xs = y # ys"
  shows "f y = i"
proof -
  have "y \<in> set (filter (\<lambda>it. f it = i) xs)" by (simp add: assms)
  then show ?thesis by simp
qed

text \<open>
  Claim C7. For a trained content-based model and an item of the trained catalog,
  \<open>get_similar_items\<close> returns at most \<open>n\<close> entries, none of them the item itself, in
  order of non-increasing similarity; for an item that is not in the trained catalog it
  fails with \<open>NotFound\<close>.
\<close>

theorem get_similar_items_spec:
  "(i \<in> set (trained_ids (train sim K catalog)) \<longrightarrow>
      (\<exists>res. get_similar_items (train sim K catalog) i n = Inr res
         \<and> length res \<le> n
         \<and> i \<notin> fst ` set res
         \<and> sorted_wrt (\<lambda>a b. snd b \<le> snd a) res))
   \<and> (i \<notin> set (trained_ids (train sim K catalog)) \<longrightarrow>
        get_similar_items (train sim K catalog) i n = Inl NotFound)"
proof (intro conjI impI)
  assume "i \<in> set (trained_ids (train sim K catalog))"
  then have "filter (\<lambda>it. cat_item_id it = i) catalog \<noteq> []"
    by (auto simp: train_def filter_empty_conv)
  then obtain it rest where f: "filter (\<lambda>it. cat_item_id it = i) catalog = it # rest"
    by (cases "filter (\<lambda>it. cat_item_id it = i) catalog") auto
  then have id: "cat_item_id it = i" by (rule filter_hd_key)
  let ?row = "similarity_row sim K catalog it"
  have g: "get_similar_items (train sim K catalog) i n = Inr (take n ?row)"
    using f by (simp add: get_similar_items_def train_def map_of_index)
  have "set (take n ?row) \<subseteq> set ?row" by (rule set_take_subset)
  with similarity_row_props(1)[of it sim K catalog] id
  have "i \<notin> fst ` set (take n ?row)" by blast
  moreover have "sorted_wrt (\<lambda>a b. snd b \<le> snd a) (take n ?row)"
    using similarity_row_props(2) by (rule sorted_wrt_take)
  moreover have "length (take n ?row) \<le> n" by simp
  ultimately show "\<exists>res. get_similar_items (train sim K catalog) i n = Inr res
         \<and> length res \<le> n \<and> i \<notin> fst ` set res
         \<and> sorted_wrt (\<lambda>a b. snd b \<le> snd a) res"
    using g by blast
next
  assume "i \<notin> set (trained_ids (train sim K catalog))"
  then have "filter (\<lambda>it. cat_item_id it = i) catalog = []"
    by (auto simp: train_def filter_empty_conv)
  then show "get_similar_items (train sim K catalog) i n = Inl NotFound"
    by (simp add: get_similar_items_def train_def map_of_index)
qed


theorem get_similar_items_spec_witness:
  "get_similar_items
     (train (\<lambda>a b. 1 / (1 + \<bar>of_int (cat_item_id a) - of_int (cat_item_id b)\<bar>)) 5
        [new_item ''A'' None 10,
         new_item ''B'' None 14,
         new_item ''C'' None 11]) 10 2
     = Inr [(11, 1 / 2), (14, 1 / 5)]
   \<and> get_similar_items
     (train (\<lambda>a b. 1 / (1 + \<bar>of_int (cat_item_id a) - of_int (cat_item_id b)\<bar>)) 5
        [new_item ''A'' None 10,
         new_item ''B'' None 14,
         new_item ''C'' None 11]) 99 2
     = Inl NotFound"
  using get_similar_items_spec [of 10
      "\<lambda>a b. 1 / (1 + \<bar>of_int (cat_item_id a) - of_int (cat_item_id b)\<bar>)" 5
      "[new_item ''A'' None 10,
        new_item ''B'' None 14,
        new_item ''C'' None 11]" 2]
    get_similar_items_spec [of 99
      "\<lambda>a b. 1 / (1 + \<bar>of_int (cat_item_id a) - of_int (cat_item_id b)\<bar>)" 5
      "[new_item ''A'' None 10,
        new_item ''B'' None 14,
        new_item ''C'' None 11]" 2]
  by (simp add: get_similar_items_def train_def similarity_row_def)

end
